theory Spec2Isabelle
  imports Complex_Main
begin

section \<open>Idle state manager (IdleMgr)\<close>

text \<open>
  The module \<^verbatim>\<open>idle_manager.py\<close> is exercised by
  \<^verbatim>\<open>server/management/tests/test_idle_manager.py\<close> but is not among the
  sources; the definitions of this section follow section 4.3 of the specification and the
  field names the tests use. Durations are seconds.
\<close>

text \<open>
  Modelled from the spec: \<^verbatim>\<open>IdleState\<close> with its levels and
  \<^verbatim>\<open>IdleThresholds\<close> (idle_manager.py is missing), as section 3 describes them and
  the tests read them.
\<close>

datatype IdleState = ACTIVE | WARM | COOL | COLD | DORMANT

fun level :: "IdleState \<Rightarrow> nat" where
  "level ACTIVE = 0"
| "level WARM = 1"
| "level COOL = 2"
| "level COLD = 3"
| "level DORMANT = 4"

record IdleThresholds =
  warm :: real
  cool :: real
  cold :: real
  dormant :: real

text \<open>The invariant of \<^verbatim>\<open>IdleThresholds\<close>: strictly increasing.\<close>

definition monotone_thresholds :: "IdleThresholds \<Rightarrow> bool" where
  "monotone_thresholds th \<longleftrightarrow> warm th < cool th \<and> cool th < cold th \<and> cold th < dormant th"

text \<open>
  Modelled from the spec: \<^verbatim>\<open>IdleManager._calculate_state\<close> (idle_manager.py is
  missing). Section 4.3 gives the computation as four successive assignments, each guarded by
  its own test, the later one overwriting the earlier.
\<close>

definition calculate_state :: "IdleThresholds \<Rightarrow> real \<Rightarrow> IdleState" where
  "calculate_state th idle =
     (let target = ACTIVE;
          target = (if idle \<ge> warm th then WARM else target);
          target = (if idle \<ge> cool th then COOL else target);
          target = (if idle \<ge> cold th then COLD else target);
          target = (if idle \<ge> dormant th then DORMANT else target)
      in target)"

text \<open>The same function the way claim C2 words it: a cascade from the highest tier down.\<close>

definition calculate_state_cascade :: "IdleThresholds \<Rightarrow> real \<Rightarrow> IdleState" where
  "calculate_state_cascade th t =
     (if t \<ge> dormant th then DORMANT
      else if t \<ge> cold th then COLD
      else if t \<ge> cool th then COOL
      else if t \<ge> warm th then WARM
      else ACTIVE)"

text \<open>
  Error kinds of section 7 of the specification (stable identifiers, not exception types).
\<close>

datatype error_kind =
    suite_not_found | client_gone | client_not_eligible | unit_timeout | unit_failed
  | cancelled | storage_unavailable | invalid_argument | precondition_violated
  | no_segments_found | provider_error | internal

subsection \<open>Thresholds from dictionaries\<close>

text \<open>
  \<^verbatim>\<open>IdleThresholds()\<close> has the defaults the tests read back (30, 300, 1800, 7200);
  \<^verbatim>\<open>from_dict\<close> takes the four known keys from a dictionary, ignores every other key
  and keeps the default for a key that is absent.
\<close>

definition default_thresholds :: IdleThresholds where
  "default_thresholds = \<lparr>warm = 30, cool = 300, cold = 1800, dormant = 7200\<rparr>"

text \<open>
  Modelled from the spec: the merge of supplied values over given thresholds
  (idle_manager.py is missing): a key of the dictionary overrides the field of that name.
\<close>

definition merge_thresholds :: "IdleThresholds \<Rightarrow> (string \<rightharpoonup> real) \<Rightarrow> IdleThresholds" where
  "merge_thresholds th d =
     \<lparr>warm = (case d ''warm'' of Some v \<Rightarrow> v | None \<Rightarrow> warm th),
      cool = (case d ''cool'' of Some v \<Rightarrow> v | None \<Rightarrow> cool th),
      cold = (case d ''cold'' of Some v \<Rightarrow> v | None \<Rightarrow> cold th),
      dormant = (case d ''dormant'' of Some v \<Rightarrow> v | None \<Rightarrow> dormant th)\<rparr>"

definition from_dict :: "(string \<rightharpoonup> real) \<Rightarrow> IdleThresholds" where
  "from_dict d = merge_thresholds default_thresholds d"

subsection \<open>Power modes and the manager\<close>

text \<open>
  Modelled from the spec: \<^verbatim>\<open>PowerMode\<close>, the recorded transition and
  \<^verbatim>\<open>IdleManager\<close> (idle_manager.py is missing), with the attributes of section 3
  and those the tests read.
\<close>

record PowerMode =
  name :: string
  description :: string
  mode_thresholds :: IdleThresholds
  mode_enabled :: bool

record IdleTransition =
  from_state :: IdleState
  to_state :: IdleState
  trigger :: string
  timestamp :: real
  seconds_idle :: real

type_synonym handler = string

text \<open>
  The manager. \<open>history_capacity\<close> is the size of the bounded transition history, which
  the specification requires to hold at least 100 entries. \<open>transition_history\<close> is
  oldest first, as the tests index it.
\<close>

record IdleManager =
  current_state :: IdleState
  current_mode :: string
  thresholds :: IdleThresholds
  enabled :: bool
  last_activity :: real
  last_activity_type :: string
  keep_awake_until :: "real option"
  handlers :: "IdleState \<Rightarrow> handler list"
  global_handlers :: "handler list"
  transition_history :: "IdleTransition list"
  history_capacity :: nat

text \<open>
  The process-wide registry \<^verbatim>\<open>POWER_MODES\<close> together with the manager that
  serialises the writes to it.
\<close>

record idle_system =
  POWER_MODES :: "string \<rightharpoonup> PowerMode"
  manager :: IdleManager

text \<open>The ids of the built-in modes, as section 4.3 lists them.\<close>

definition builtin_ids :: "string list" where
  "builtin_ids = [''performance'', ''balanced'', ''power_saver'', ''development'', ''presentation'']"

definition is_builtin :: "string \<Rightarrow> bool" where
  "is_builtin profile_id \<longleftrightarrow> profile_id \<in> set builtin_ids"

text \<open>The built-in modes are registered at initialisation: every one has an entry.\<close>

definition builtins_registered :: "idle_system \<Rightarrow> bool" where
  "builtins_registered s \<longleftrightarrow> list_all (\<lambda>profile_id. POWER_MODES s profile_id \<noteq> None) builtin_ids"

text \<open>
  Modelled from the spec: \<^verbatim>\<open>IdleManager.set_mode\<close> (idle_manager.py is missing).
  It swaps thresholds and enabled flag together and leaves the activity timer alone; an
  unknown id returns False and changes nothing.
\<close>

definition set_mode :: "idle_system \<Rightarrow> string \<Rightarrow> bool \<times> idle_system" where
  "set_mode s mode_id =
     (case POWER_MODES s mode_id of
        None \<Rightarrow> (False, s)
      | Some pm \<Rightarrow>
          (True, s\<lparr>manager := (manager s)\<lparr>current_mode := mode_id,
                                            thresholds := mode_thresholds pm,
                                            enabled := mode_enabled pm\<rparr>\<rparr>))"

text \<open>
  Modelled from the spec: \<^verbatim>\<open>IdleManager.set_thresholds\<close> (idle_manager.py is
  missing). The supplied values are merged over the current thresholds and the mode becomes
  \<open>custom\<close>; a result that is not strictly increasing is rejected: the call returns
  False and the manager stays as it was.
\<close>

definition set_thresholds :: "IdleManager \<Rightarrow> (string \<rightharpoonup> real) \<Rightarrow> bool \<times> IdleManager" where
  "set_thresholds m d =
     (let merged = merge_thresholds (thresholds m) d
      in if monotone_thresholds merged
         then (True, m\<lparr>thresholds := merged, current_mode := ''custom''\<rparr>)
         else (False, m))"

text \<open>
  Modelled from the spec: \<^verbatim>\<open>IdleManager.create_profile\<close> (idle_manager.py is
  missing). Built-in modes are immutable and only thresholds that satisfy the invariant are
  accepted; the thresholds come from the dictionary as \<^verbatim>\<open>from_dict\<close> reads it. The
  result is the success flag the tests assert on.
\<close>

definition create_profile ::
  "idle_system \<Rightarrow> string \<Rightarrow> string \<Rightarrow> string \<Rightarrow> (string \<rightharpoonup> real) \<Rightarrow> bool \<Rightarrow> bool \<times> idle_system" where
  "create_profile s profile_id nm descr d en =
     (if is_builtin profile_id then (False, s)
      else if \<not> monotone_thresholds (from_dict d) then (False, s)
      else (True, s\<lparr>POWER_MODES := (POWER_MODES s)(profile_id \<mapsto>
              \<lparr>name = nm, description = descr, mode_thresholds = from_dict d,
               mode_enabled = en\<rparr>)\<rparr>))"

text \<open>
  Modelled from the spec: \<^verbatim>\<open>IdleManager.update_profile\<close> (idle_manager.py is
  missing). Built-in modes are immutable; an unknown id is refused; the arguments given
  replace the fields of the profile, supplied thresholds being merged over its own.
\<close>

definition update_profile ::
  "idle_system \<Rightarrow> string \<Rightarrow> string option \<Rightarrow> string option \<Rightarrow> (string \<rightharpoonup> real) option
     \<Rightarrow> bool option \<Rightarrow> bool \<times> idle_system" where
  "update_profile s profile_id nm descr d en =
     (if is_builtin profile_id then (False, s)
      else case POWER_MODES s profile_id of
        None \<Rightarrow> (False, s)
      | Some pm \<Rightarrow>
          (let pm' = \<lparr>name = (case nm of Some n \<Rightarrow> n | None \<Rightarrow> name pm),
                      description = (case descr of Some x \<Rightarrow> x | None \<Rightarrow> description pm),
                      mode_thresholds = (case d of Some t \<Rightarrow> merge_thresholds (mode_thresholds pm) t
                                         | None \<Rightarrow> mode_thresholds pm),
                      mode_enabled = (case en of Some b \<Rightarrow> b | None \<Rightarrow> mode_enabled pm)\<rparr>
           in if \<not> monotone_thresholds (mode_thresholds pm') then (False, s)
              else (True, s\<lparr>POWER_MODES := (POWER_MODES s)(profile_id \<mapsto> pm')\<rparr>)))"

text \<open>
  Modelled from the spec: \<^verbatim>\<open>IdleManager.delete_profile\<close> (idle_manager.py is
  missing). Built-in modes are immutable; an unknown id is refused; deleting the active
  profile switches to \<open>balanced\<close>.
\<close>

definition delete_profile :: "idle_system \<Rightarrow> string \<Rightarrow> bool \<times> idle_system" where
  "delete_profile s profile_id =
     (if is_builtin profile_id then (False, s)
      else case POWER_MODES s profile_id of
        None \<Rightarrow> (False, s)
      | Some _ \<Rightarrow>
          (let s1 = s\<lparr>POWER_MODES := (POWER_MODES s)(profile_id := None)\<rparr>;
               s2 = (if current_mode (manager s1) = profile_id
                     then snd (set_mode s1 ''balanced'') else s1)
           in (True, s2)))"

subsection \<open>Transitions\<close>

text \<open>
  What a transition invokes: the handlers registered for the state entered, then the global
  handlers, which receive the transition itself.
\<close>

datatype invocation =
    StateHandlerCall handler IdleState
  | GlobalHandlerCall handler IdleTransition

text \<open>Appending to the bounded history evicts the oldest entries beyond the capacity.\<close>

definition ring_append :: "nat \<Rightarrow> 'a list \<Rightarrow> 'a \<Rightarrow> 'a list" where
  "ring_append cap xs x = drop (length (xs @ [x]) - cap) (xs @ [x])"

text \<open>
  Modelled from the spec: \<^verbatim>\<open>IdleManager._transition_to\<close> (idle_manager.py is
  missing). Nothing happens when the target is the current state. Otherwise the transition is
  recorded with the idle time at the event, the state changes, and all handlers for the
  transition are invoked; a handler that raises is logged and does not stop the others.
  \<open>now\<close> is the wall clock at the call.
\<close>

definition transition_to ::
  "real \<Rightarrow> IdleManager \<Rightarrow> IdleState \<Rightarrow> string \<Rightarrow> IdleManager \<times> invocation list" where
  "transition_to now m target trig =
     (if target = current_state m then (m, [])
      else
        (let tr = \<lparr>from_state = current_state m, to_state = target, trigger = trig,
                   timestamp = now, seconds_idle = now - last_activity m\<rparr>;
             m' = m\<lparr>current_state := target,
                    transition_history :=
                      ring_append (history_capacity m) (transition_history m) tr\<rparr>
         in (m', map (\<lambda>h. StateHandlerCall h target) (handlers m target)
                 @ map (\<lambda>h. GlobalHandlerCall h tr) (global_handlers m))))"

text \<open>A run of the manager: transition requests, each with the clock at its call.\<close>

fun transitions :: "IdleManager \<Rightarrow> (real \<times> IdleState \<times> string) list \<Rightarrow> IdleManager" where
  "transitions m [] = m"
| "transitions m ((now, target, trig) # rest) =
     transitions (fst (transition_to now m target trig)) rest"

text \<open>The invariant of the history: no recorded transition stays in its state.\<close>

definition history_ok :: "IdleManager \<Rightarrow> bool" where
  "history_ok m \<longleftrightarrow> list_all (\<lambda>tr. from_state tr \<noteq> to_state tr) (transition_history m)"

section \<open>Audio session bus (AudioBus)\<close>

text \<open>
  The module \<^verbatim>\<open>audio_ws.py\<close> is exercised by
  \<^verbatim>\<open>server/management/tests/test_audio_ws.py\<close> but is not among the sources; the
  handler below follows section 4.4 of the specification. The session classes follow the
  mocks of the test file.
\<close>

record PlaybackState =
  curriculum_id :: "string option"
  topic_id :: "string option"
  segment_index :: int
  offset_ms :: int
  is_playing :: bool

record VoiceConfig =
  voice_id :: string
  tts_provider :: string
  speed :: real

record UserSession =
  session_id :: string
  user_id :: string
  playback_state :: PlaybackState
  voice_config :: VoiceConfig

text \<open>\<^verbatim>\<open>MockUserSession.update_playback\<close>: the three fields are overwritten.\<close>

definition update_playback :: "UserSession \<Rightarrow> int \<Rightarrow> int \<Rightarrow> bool \<Rightarrow> UserSession" where
  "update_playback session idx off playing =
     session\<lparr>playback_state := (playback_state session)
        \<lparr>segment_index := idx, offset_ms := off, is_playing := playing\<rparr>\<rparr>"

text \<open>What the session cache returns for a segment: the audio, the hit flag, the duration.\<close>

record cached_audio =
  audio_data :: string
  was_cache_hit :: bool
  duration :: real

record audio_frame =
  frame_segment_index :: int
  audio_base64 :: string
  duration_seconds :: real
  total_segments :: nat
  cache_hit :: bool

text \<open>
  Modelled from the spec: the outbound messages (audio_ws.py is missing), with the fields of
  the table of section 4.4.
\<close>

datatype outbound =
    Audio audio_frame
  | SyncAck int real
  | BargeInAck int int
  | VoiceConfigAck VoiceConfig
  | TopicSet nat
  | Error error_kind

fun msg_type :: "outbound \<Rightarrow> string" where
  "msg_type (Audio _) = ''audio''"
| "msg_type (SyncAck _ _) = ''sync_ack''"
| "msg_type (BargeInAck _ _) = ''barge_in_ack''"
| "msg_type (VoiceConfigAck _) = ''voice_config_ack''"
| "msg_type (TopicSet _) = ''topic_set''"
| "msg_type (Error _) = ''error''"

text \<open>
  Modelled from the spec: \<^verbatim>\<open>AudioWebSocketHandler\<close> (audio_ws.py is missing). The
  handler owns the topic segment table and reaches the session cache, which may fail, and
  the base64 encoder through its fields. \<open>prefetch_count\<close> is the number K of
  segments requested ahead (2 by default).
\<close>

record AudioWebSocketHandler =
  segments_by_topic :: "string \<times> string \<rightharpoonup> string list"
  session_cache :: "UserSession \<Rightarrow> string \<Rightarrow> error_kind + cached_audio"
  b64encode :: "string \<Rightarrow> string"
  prefetch_count :: nat

text \<open>The indices \<open>(i+1)..min(i+K, total-1)\<close> handed to the prefetch task.\<close>

definition prefetch_indices :: "nat \<Rightarrow> nat \<Rightarrow> nat \<Rightarrow> nat list" where
  "prefetch_indices k i n = [Suc i ..< Suc (min (i + k) (n - 1))]"

text \<open>The outcome of one handler call: the session, the frames sent, the prefetch request.\<close>

record handled =
  session_after :: UserSession
  sent_messages :: "outbound list"
  prefetched :: "nat list"

text \<open>
  Modelled from the spec: \<^verbatim>\<open>AudioWebSocketHandler._handle_audio_request\<close>
  (audio_ws.py is missing). The request needs a bound topic and an index within the topic's
  segment table; a topic without segments yields \<open>no_segments_found\<close>. An error frame
  replaces the normal answer when a precondition is violated or when the handler fails, which
  is the case when the session cache cannot deliver the audio; a message fails atomically, so
  the session is then left as it was. On success the playback state becomes
  \<open>(segment_index, 0, playing)\<close>, one audio frame is sent and the prefetch is requested.
\<close>

definition handle_audio_request :: "AudioWebSocketHandler \<Rightarrow> UserSession \<Rightarrow> int \<Rightarrow> handled" where
  "handle_audio_request h session idx =
     (let failed = (\<lambda>e. \<lparr>session_after = session, sent_messages = [Error e], prefetched = []\<rparr>)
      in case (curriculum_id (playback_state session), topic_id (playback_state session)) of
        (Some c, Some t) \<Rightarrow>
          (case segments_by_topic h (c, t) of
             None \<Rightarrow> failed no_segments_found
           | Some segments \<Rightarrow>
               if idx < 0 \<or> idx \<ge> int (length segments) then failed precondition_violated
               else
                 (case session_cache h session (segments ! nat idx) of
                    Inl e \<Rightarrow> failed e
                  | Inr a \<Rightarrow>
                      \<lparr>session_after = update_playback session idx 0 True,
                       sent_messages =
                         [Audio \<lparr>frame_segment_index = idx,
                                 audio_base64 = b64encode h (audio_data a),
                                 duration_seconds = duration a,
                                 total_segments = length segments,
                                 cache_hit = was_cache_hit a\<rparr>],
                       prefetched =
                         prefetch_indices (prefetch_count h) (nat idx) (length segments)\<rparr>))
      | _ \<Rightarrow> failed precondition_violated)"

subsection \<open>The preconditions of an audio request\<close>

text \<open>
  The segment table of the topic the session is bound to: None when the session has no bound
  topic (a curriculum or a topic id is missing) or when no table exists for the topic.
\<close>

definition topic_segments :: "AudioWebSocketHandler \<Rightarrow> UserSession \<Rightarrow> string list option" where
  "topic_segments h session =
     (case curriculum_id (playback_state session) of
        None \<Rightarrow> None
      | Some c \<Rightarrow>
          (case topic_id (playback_state session) of
             None \<Rightarrow> None
           | Some t \<Rightarrow> segments_by_topic h (c, t)))"

text \<open>A bound topic, a segment table for it, and an index within the table.\<close>

definition request_preconditions :: "AudioWebSocketHandler \<Rightarrow> UserSession \<Rightarrow> int \<Rightarrow> bool" where
  "request_preconditions h session idx \<longleftrightarrow>
     (case topic_segments h session of
        None \<Rightarrow> False
      | Some segments \<Rightarrow> 0 \<le> idx \<and> idx < int (length segments))"

section \<open>Latency harness command line\<close>

text \<open>
  \<^verbatim>\<open>server/latency_harness/cli.py\<close>. The orchestrator, the storage, the analyzer
  and the models it imports are not among the sources: their data types are modelled from
  section 3 of the specification, with the attributes the command line reads, and what they
  answer is a parameter of the model (\<open>environment\<close>). Printing is not modelled.
\<close>

text \<open>
  Modelled from the spec: \<^verbatim>\<open>RunStatus\<close> and the run, suite, baseline and report
  records of \<^verbatim>\<open>latency_harness.models\<close> (models.py is missing).
\<close>

datatype RunStatus = PENDING | RUNNING | COMPLETED | FAILED | CANCELLED

record TestResult =
  result_config_id :: string
  success :: bool

record TestRun =
  run_id :: string
  run_suite_name :: string
  status :: RunStatus
  total_configurations :: nat
  completed_configurations :: nat
  elapsed_time :: real
  results :: "TestResult list"

record TestSuiteDefinition =
  suite_id :: string
  suite_name :: string
  suite_description :: string
  total_test_count :: nat

record PerformanceBaseline =
  baseline_id :: string

record AnalysisSummary =
  total_tests :: int
  successful_tests :: int
  overall_median_e2e_ms :: real
  overall_p99_e2e_ms :: real
  overall_min_e2e_ms :: real
  overall_max_e2e_ms :: real

record Regression =
  config_id :: string
  metric :: string
  baseline_value :: real
  current_value :: real
  change_percent :: real
  severity :: string

record AnalysisReport =
  summary :: AnalysisSummary
  regressions :: "Regression list"
  recommendations :: "string list"

text \<open>
  The exceptions that reach the handlers of \<^verbatim>\<open>main\<close>. All are instances of
  \<^verbatim>\<open>Exception\<close>; \<open>AttributeError\<close> is what reading an attribute of
  \<^verbatim>\<open>None\<close> raises; \<open>OtherError\<close> stands for any further class. What is not
  an \<^verbatim>\<open>Exception\<close> (a keyboard interrupt, the exit of the argument parser) is
  outside the model, which begins with the parsed arguments.
\<close>

datatype exn =
    TimeoutError int
  | ValueError string
  | RuntimeError string
  | AttributeError
  | OtherError string

text \<open>The calls made to the collaborators, in order.\<close>

datatype call =
    Initialize
  | ListSuites
  | GetSuite string
  | RegisterClient string
  | StartTestRun string
  | CancelRun string
  | Sleep
  | GetRun string
  | Analyze string
  | GetBaseline string
  | Shutdown

text \<open>
  What the collaborators answer during one invocation. \<open>polls\<close> has one entry for each
  pass through the waiting loop: the seconds the clock shows since the loop began, and what
  \<^verbatim>\<open>get_run\<close> returns after the sleep of that pass. \<open>refreshed_run\<close> is the
  answer of \<^verbatim>\<open>get_run\<close> after the loop, \<open>regression_run\<close> its answer inside
  \<^verbatim>\<open>check_regression\<close>.
\<close>

record environment =
  initialize_error :: "exn option"
  get_suite :: "string \<Rightarrow> TestSuiteDefinition option"
  start_test_run :: "string \<Rightarrow> exn + TestRun"
  polls :: "(real \<times> TestRun option) list"
  refreshed_run :: "TestRun option"
  analyze :: "TestRun \<Rightarrow> AnalysisReport"
  regression_run :: "TestRun option"
  get_baseline :: "string \<Rightarrow> PerformanceBaseline option"
  analyze_baseline :: "TestRun \<Rightarrow> PerformanceBaseline \<Rightarrow> real \<Rightarrow> AnalysisReport"

subsection \<open>Arguments\<close>

datatype output_format = Text | Json

text \<open>The namespace \<^verbatim>\<open>parse_args\<close> returns (without \<^verbatim>\<open>data_dir\<close>).\<close>

record args =
  suite :: "string option"
  list_suites :: bool
  timeout :: int
  mock :: bool
  no_mock :: bool
  baseline :: "string option"
  regression_threshold :: real
  output_fmt :: output_format
  ci :: bool
  fail_on_regression :: bool

text \<open>
  A well-formed command line: which flags are present, and the values of those that take
  one.
\<close>

record command_line =
  given_suite :: "string option"
  given_list_suites :: bool
  given_timeout :: "int option"
  given_mock :: bool
  given_no_mock :: bool
  given_baseline :: "string option"
  given_regression_threshold :: "real option"
  given_output :: "output_format option"
  given_ci :: bool
  given_fail_on_regression :: bool

text \<open>
  An option with \<^verbatim>\<open>action="store_true"\<close> is True when the flag is present and has
  its default otherwise.
\<close>

definition store_true :: "bool \<Rightarrow> bool \<Rightarrow> bool" where
  "store_true dflt present = (if present then True else dflt)"

definition with_default :: "'a \<Rightarrow> 'a option \<Rightarrow> 'a" where
  "with_default dflt given = (case given of Some v \<Rightarrow> v | None \<Rightarrow> dflt)"

text \<open>The parser of \<^verbatim>\<open>main\<close>, with the defaults of its \<^verbatim>\<open>add_argument\<close> calls.\<close>

definition parse_args :: "command_line \<Rightarrow> args" where
  "parse_args cl =
     \<lparr>suite = given_suite cl,
      list_suites = store_true False (given_list_suites cl),
      timeout = with_default 300 (given_timeout cl),
      mock = store_true True (given_mock cl),
      no_mock = store_true False (given_no_mock cl),
      baseline = given_baseline cl,
      regression_threshold = with_default 0.2 (given_regression_threshold cl),
      output_fmt = with_default Text (given_output cl),
      ci = store_true False (given_ci cl),
      fail_on_regression = store_true False (given_fail_on_regression cl)\<rparr>"

text \<open>Python's truth value of an optional string: None and the empty string are false.\<close>

definition truthy :: "string option \<Rightarrow> bool" where
  "truthy v = (case v of None \<Rightarrow> False | Some x \<Rightarrow> x \<noteq> [])"

subsection \<open>\<^verbatim>\<open>LatencyTestCLI.run_test\<close>\<close>

text \<open>
  The waiting loop. Each pass reads the clock, gives up beyond the timeout (cancelling the
  run first), and otherwise sleeps and fetches the run again. The loop need not end: the
  result is None when the run is still RUNNING after the last recorded pass. Reading
  \<^verbatim>\<open>run.status\<close> when \<^verbatim>\<open>get_run\<close> returned None raises.
\<close>

fun wait_loop ::
  "int \<Rightarrow> TestRun option \<Rightarrow> (real \<times> TestRun option) list \<Rightarrow> (call list \<times> (exn + TestRun)) option" where
  "wait_loop t None obs = Some ([], Inl AttributeError)"
| "wait_loop t (Some run) obs =
     (if status run \<noteq> RUNNING then Some ([], Inr run)
      else case obs of
        [] \<Rightarrow> None
      | (elapsed, fetched) # rest \<Rightarrow>
          if elapsed > real_of_int t then Some ([CancelRun (run_id run)], Inl (TimeoutError t))
          else map_option (\<lambda>(calls, res). (Sleep # GetRun (run_id run) # calls, res))
                 (wait_loop t fetched rest))"

text \<open>The dictionary \<^verbatim>\<open>run_test\<close> returns.\<close>

record run_summary =
  median_e2e_ms :: real
  p99_e2e_ms :: real
  min_e2e_ms :: real
  max_e2e_ms :: real
  success_rate :: real

record run_result =
  result_run_id :: string
  result_suite_name :: string
  result_status :: RunStatus
  result_total_configurations :: nat
  result_completed_configurations :: nat
  result_elapsed_seconds :: real
  results_count :: nat
  result_summary :: run_summary
  result_recommendations :: "string list"

definition compute_success_rate :: "AnalysisSummary \<Rightarrow> real" where
  "compute_success_rate sm =
     (if total_tests sm > 0
      then real_of_int (successful_tests sm) / real_of_int (total_tests sm) * 100
      else 0)"

definition build_result :: "TestRun \<Rightarrow> AnalysisReport \<Rightarrow> run_result" where
  "build_result run report =
     \<lparr>result_run_id = run_id run,
      result_suite_name = run_suite_name run,
      result_status = status run,
      result_total_configurations = total_configurations run,
      result_completed_configurations = completed_configurations run,
      result_elapsed_seconds = elapsed_time run,
      results_count = length (results run),
      result_summary =
        \<lparr>median_e2e_ms = overall_median_e2e_ms (summary report),
         p99_e2e_ms = overall_p99_e2e_ms (summary report),
         min_e2e_ms = overall_min_e2e_ms (summary report),
         max_e2e_ms = overall_max_e2e_ms (summary report),
         success_rate = compute_success_rate (summary report)\<rparr>,
      result_recommendations = recommendations report\<rparr>"

text \<open>After the loop: the run is fetched once more, and a failed or cancelled run raises.\<close>

definition finish_run :: "environment \<Rightarrow> TestRun \<Rightarrow> call list \<times> (exn + run_result)" where
  "finish_run env run =
     (case refreshed_run env of
        None \<Rightarrow> ([GetRun (run_id run)], Inl AttributeError)
      | Some run' \<Rightarrow>
          if status run' = FAILED
          then ([GetRun (run_id run)], Inl (RuntimeError (''Test run failed: '' @ run_id run')))
          else if status run' = CANCELLED
          then ([GetRun (run_id run)],
                Inl (RuntimeError (''Test run was cancelled: '' @ run_id run')))
          else ([GetRun (run_id run), Analyze (run_id run')],
                Inr (build_result run' (analyze env run'))))"

definition run_test ::
  "environment \<Rightarrow> string \<Rightarrow> int \<Rightarrow> bool \<Rightarrow> (call list \<times> (exn + run_result)) option" where
  "run_test env sid t use_mock =
     (case get_suite env sid of
        None \<Rightarrow> Some ([GetSuite sid], Inl (ValueError (''Suite not found: '' @ sid)))
      | Some _ \<Rightarrow>
          (let before = GetSuite sid
                 # (if use_mock then [RegisterClient ''cli_mock_client''] else [])
                 @ [StartTestRun sid]
           in case start_test_run env sid of
             Inl e \<Rightarrow> Some (before, Inl e)
           | Inr run \<Rightarrow>
               (case wait_loop t (Some run) (polls env) of
                  None \<Rightarrow> None
                | Some (calls, Inl e) \<Rightarrow> Some (before @ calls, Inl e)
                | Some (calls, Inr run') \<Rightarrow>
                    (let (calls', res) = finish_run env run'
                     in Some (before @ calls @ calls', res)))))"

subsection \<open>\<^verbatim>\<open>LatencyTestCLI.check_regression\<close>\<close>

record regression_result =
  reg_run_id :: string
  reg_baseline_id :: string
  has_regressions :: bool
  regression_count :: nat
  severe_regression_count :: nat
  reported_regressions :: "Regression list"
  pass :: bool

definition check_regression ::
  "environment \<Rightarrow> string \<Rightarrow> string \<Rightarrow> real \<Rightarrow> call list \<times> (exn + regression_result)" where
  "check_regression env rid bid threshold =
     (case regression_run env of
        None \<Rightarrow> ([GetRun rid], Inl (ValueError (''Run not found: '' @ rid)))
      | Some run \<Rightarrow>
          (case get_baseline env bid of
             None \<Rightarrow> ([GetRun rid, GetBaseline bid],
                       Inl (ValueError (''Baseline not found: '' @ bid)))
           | Some bl \<Rightarrow>
               (let report = analyze_baseline env run bl threshold;
                    has = (length (regressions report) > 0);
                    severe_regressions =
                      filter (\<lambda>r. severity r = ''severe'') (regressions report)
                in ([GetRun rid, GetBaseline bid, Analyze (run_id run)],
                    Inr \<lparr>reg_run_id = rid,
                         reg_baseline_id = bid,
                         has_regressions = has,
                         regression_count = length (regressions report),
                         severe_regression_count = length severe_regressions,
                         reported_regressions = regressions report,
                         pass = (\<not> has)\<rparr>))))"

subsection \<open>\<^verbatim>\<open>main\<close>\<close>

text \<open>
  The two gates at the end of a suite run, each overwriting the exit code with 1 when it
  fires.
\<close>

definition regression_gate :: "args \<Rightarrow> regression_result \<Rightarrow> int \<Rightarrow> int" where
  "regression_gate a rr exit_code =
     (if fail_on_regression a \<and> has_regressions rr then 1 else exit_code)"

definition ci_gate :: "args \<Rightarrow> run_result \<Rightarrow> int \<Rightarrow> int" where
  "ci_gate a res exit_code =
     (if ci a \<and> success_rate (result_summary res) < 100 then 1 else exit_code)"

text \<open>
  The part of \<^verbatim>\<open>main\<close> that follows a returned \<^verbatim>\<open>run_test\<close>: the regression
  check when a baseline is named, then the success rate check. The exit code starts at 0.
\<close>

definition report_stage :: "environment \<Rightarrow> args \<Rightarrow> run_result \<Rightarrow> call list \<times> (exn + int)" where
  "report_stage env a res =
     (if truthy (baseline a)
      then
        (case check_regression env (result_run_id res) (the (baseline a))
                (regression_threshold a) of
           (calls, Inl e) \<Rightarrow> (calls, Inl e)
         | (calls, Inr rr) \<Rightarrow> (calls, Inr (ci_gate a res (regression_gate a rr 0))))
      else ([], Inr (ci_gate a res 0)))"

text \<open>
  The body of the \<^verbatim>\<open>try\<close> statement: the calls made, and either the exception that
  leaves it or the exit code at its end.
\<close>

definition main_body :: "environment \<Rightarrow> args \<Rightarrow> (call list \<times> (exn + int)) option" where
  "main_body env a =
     (case initialize_error env of
        Some e \<Rightarrow> Some ([Initialize], Inl e)
      | None \<Rightarrow>
          if list_suites a then Some ([Initialize, ListSuites], Inr 0)
          else if truthy (suite a) then
            (let use_mock = (mock a \<and> \<not> no_mock a)
             in case run_test env (the (suite a)) (timeout a) use_mock of
               None \<Rightarrow> None
             | Some (calls, Inl e) \<Rightarrow> Some (Initialize # calls, Inl e)
             | Some (calls, Inr res) \<Rightarrow>
                 (let (calls', outcome) = report_stage env a res
                  in Some (Initialize # calls @ calls', outcome)))
          else Some ([Initialize], Inr 0))"

text \<open>The \<^verbatim>\<open>except\<close> clauses, in their order.\<close>

fun exit_code_of :: "exn + int \<Rightarrow> int" where
  "exit_code_of (Inr exit_code) = exit_code"
| "exit_code_of (Inl (TimeoutError _)) = 2"
| "exit_code_of (Inl (ValueError _)) = 1"
| "exit_code_of (Inl _) = 1"

text \<open>
  \<^verbatim>\<open>main\<close>: the calls made, ending with the shutdown of the \<^verbatim>\<open>finally\<close>
  clause, and the code handed to \<^verbatim>\<open>sys.exit\<close>.
\<close>

definition main :: "environment \<Rightarrow> args \<Rightarrow> (call list \<times> int) option" where
  "main env a =
     map_option (\<lambda>(calls, outcome). (calls @ [Shutdown], exit_code_of outcome)) (main_body env a)"

subsection \<open>Reading the calls and the observations\<close>

text \<open>The runs on which \<^verbatim>\<open>cancel_run\<close> was called.\<close>

fun cancelled_runs :: "call list \<Rightarrow> string list" where
  "cancelled_runs [] = []"
| "cancelled_runs (CancelRun rid # cs) = rid # cancelled_runs cs"
| "cancelled_runs (_ # cs) = cancelled_runs cs"

text \<open>The clients registered.\<close>

fun registered_clients :: "call list \<Rightarrow> string list" where
  "registered_clients [] = []"
| "registered_clients (RegisterClient cid # cs) = cid # registered_clients cs"
| "registered_clients (_ # cs) = registered_clients cs"

text \<open>
  Passes of the waiting loop during which the clock stays within the timeout and the run
  fetched is still RUNNING.
\<close>

definition still_running :: "int \<Rightarrow> (real \<times> TestRun option) list \<Rightarrow> bool" where
  "still_running t obs \<longleftrightarrow>
     list_all (\<lambda>(elapsed, fetched). elapsed \<le> real_of_int t
                 \<and> (case fetched of Some r \<Rightarrow> status r = RUNNING | None \<Rightarrow> False)) obs"

text \<open>The invocation asks for the suite \<open>sid\<close>, and the suite is registered.\<close>

definition finds_suite :: "environment \<Rightarrow> args \<Rightarrow> string \<Rightarrow> bool" where
  "finds_suite env a sid \<longleftrightarrow>
     initialize_error env = None \<and> \<not> list_suites a \<and> suite a = Some sid \<and> sid \<noteq> []
     \<and> get_suite env sid \<noteq> None"

text \<open>The invocation gets as far as the waiting loop, with the run \<open>run\<close> of suite \<open>sid\<close>.\<close>

definition starts_run :: "environment \<Rightarrow> args \<Rightarrow> string \<Rightarrow> TestRun \<Rightarrow> bool" where
  "starts_run env a sid run \<longleftrightarrow> finds_suite env a sid \<and> start_test_run env sid = Inr run"

text \<open>The calls of \<^verbatim>\<open>run_test\<close> up to the start of the run.\<close>

definition calls_before_loop :: "args \<Rightarrow> string \<Rightarrow> call list" where
  "calls_before_loop a sid =
     GetSuite sid
       # (if mock a \<and> \<not> no_mock a then [RegisterClient ''cli_mock_client''] else [])
       @ [StartTestRun sid]"

text \<open>
  What follows the waiting loop, given how the loop ended: the calls made, and the exception
  that leaves the \<^verbatim>\<open>try\<close> statement or the exit code at its end.
\<close>

definition after_loop :: "environment \<Rightarrow> args \<Rightarrow> exn + TestRun \<Rightarrow> call list \<times> (exn + int)" where
  "after_loop env a ended =
     (case ended of
        Inl e \<Rightarrow> ([], Inl e)
      | Inr run \<Rightarrow>
          (case finish_run env run of
             (calls, Inl e) \<Rightarrow> (calls, Inl e)
           | (calls, Inr res) \<Rightarrow>
               (let (calls', outcome) = report_stage env a res in (calls @ calls', outcome))))"

text \<open>
  The invocation reaches the reporting stage with the result \<open>res\<close> of
  \<^verbatim>\<open>run_test\<close>.
\<close>

definition reaches_report :: "environment \<Rightarrow> args \<Rightarrow> run_result \<Rightarrow> bool" where
  "reaches_report env a res \<longleftrightarrow>
     initialize_error env = None \<and> \<not> list_suites a \<and> truthy (suite a)
     \<and> map_option snd (run_test env (the (suite a)) (timeout a) (mock a \<and> \<not> no_mock a))
         = Some (Inr res)"

text \<open>
  What \<^verbatim>\<open>check_regression\<close> gives at the reporting stage; None when no baseline is
  named, so that it is not called.
\<close>

definition regression_check ::
  "environment \<Rightarrow> args \<Rightarrow> run_result \<Rightarrow> (exn + regression_result) option" where
  "regression_check env a res =
     (if truthy (baseline a)
      then Some (snd (check_regression env (result_run_id res) (the (baseline a))
                        (regression_threshold a)))
      else None)"

text \<open>The process exit code alone.\<close>

definition exit_code :: "environment \<Rightarrow> args \<Rightarrow> int option" where
  "exit_code env a = map_option snd (main env a)"

section \<open>Example data\<close>

text \<open>
  A manager as the test fixtures build it, a registry with the five built-in modes, and a
  registry with one custom profile that is the current mode.
\<close>

definition fixture_manager :: IdleManager where
  "fixture_manager =
     \<lparr>current_state = ACTIVE, current_mode = ''balanced'',
      thresholds = \<lparr>warm = 10, cool = 60, cold = 300, dormant = 1800\<rparr>,
      enabled = True, last_activity = 0, last_activity_type = ''startup'',
      keep_awake_until = None, handlers = (\<lambda>_. []), global_handlers = [],
      transition_history = [], history_capacity = 100\<rparr>"

definition fixture_mode :: "IdleThresholds \<Rightarrow> bool \<Rightarrow> PowerMode" where
  "fixture_mode th en =
     \<lparr>name = ''mode'', description = [], mode_thresholds = th, mode_enabled = en\<rparr>"

definition fixture_registry :: "string \<rightharpoonup> PowerMode" where
  "fixture_registry =
     [''performance'' \<mapsto> fixture_mode default_thresholds False,
      ''balanced'' \<mapsto> fixture_mode default_thresholds True,
      ''power_saver'' \<mapsto> fixture_mode \<lparr>warm = 10, cool = 60, cold = 300, dormant = 1800\<rparr> True,
      ''development'' \<mapsto> fixture_mode default_thresholds True,
      ''presentation'' \<mapsto> fixture_mode default_thresholds True]"

definition fixture_system :: idle_system where
  "fixture_system = \<lparr>POWER_MODES = fixture_registry, manager = fixture_manager\<rparr>"

definition custom_system :: idle_system where
  "custom_system =
     \<lparr>POWER_MODES = fixture_registry(''current_test'' \<mapsto>
                       fixture_mode (from_dict [''warm'' \<mapsto> 20]) True),
      manager = fixture_manager\<lparr>current_mode := ''current_test''\<rparr>\<rparr>"

text \<open>The session and the handler of the message handling tests, with a cache to choose.\<close>

definition fixture_session :: UserSession where
  "fixture_session =
     \<lparr>session_id = ''test-session'', user_id = ''test-user'',
      playback_state = \<lparr>curriculum_id = Some ''test-curriculum'', topic_id = Some ''test-topic'',
                        segment_index = 0, offset_ms = 0, is_playing = False\<rparr>,
      voice_config = \<lparr>voice_id = ''nova'', tts_provider = ''vibevoice'', speed = 1\<rparr>\<rparr>"

definition fixture_handler ::
  "(UserSession \<Rightarrow> string \<Rightarrow> error_kind + cached_audio) \<Rightarrow> AudioWebSocketHandler" where
  "fixture_handler cache =
     \<lparr>segments_by_topic =
        [(''test-curriculum'', ''test-topic'') \<mapsto>
           [''Segment one text'', ''Segment two text'', ''Segment three text'']],
      session_cache = cache, b64encode = (\<lambda>d. d), prefetch_count = 2\<rparr>"

definition working_cache :: "UserSession \<Rightarrow> string \<Rightarrow> error_kind + cached_audio" where
  "working_cache session segment_text =
     Inr \<lparr>audio_data = ''test-audio-data'', was_cache_hit = True, duration = 2.5\<rparr>"

definition failing_cache :: "UserSession \<Rightarrow> string \<Rightarrow> error_kind + cached_audio" where
  "failing_cache session segment_text = Inl provider_error"

text \<open>
  A run, a report and an environment for the command line: the suite
  \<open>quick_validation\<close> and the baseline \<open>base\<close> exist, the run starts RUNNING, and
  the observations of the loop, the final status, the counts of the report and the
  regressions found against the baseline are chosen.
\<close>

definition fixture_run :: "RunStatus \<Rightarrow> TestRun" where
  "fixture_run st =
     \<lparr>run_id = ''run-1'', run_suite_name = ''Quick Validation'', status = st,
      total_configurations = 6, completed_configurations = 6, elapsed_time = 1.5,
      results = []\<rparr>"

definition fixture_report :: "int \<Rightarrow> int \<Rightarrow> Regression list \<Rightarrow> AnalysisReport" where
  "fixture_report ok n regs =
     \<lparr>summary = \<lparr>total_tests = n, successful_tests = ok, overall_median_e2e_ms = 400,
                 overall_p99_e2e_ms = 450, overall_min_e2e_ms = 350,
                 overall_max_e2e_ms = 460\<rparr>,
      regressions = regs, recommendations = []\<rparr>"

definition fixture_regression :: Regression where
  "fixture_regression =
     \<lparr>config_id = ''cfg-1'', metric = ''median_e2e_ms'', baseline_value = 400,
      current_value = 600, change_percent = 50, severity = ''severe''\<rparr>"

definition fixture_env ::
  "(real \<times> TestRun option) list \<Rightarrow> RunStatus \<Rightarrow> int \<Rightarrow> int \<Rightarrow> Regression list \<Rightarrow> environment" where
  "fixture_env obs final ok n regs =
     \<lparr>initialize_error = None,
      get_suite = (\<lambda>sid. if sid = ''quick_validation''
                          then Some \<lparr>suite_id = sid, suite_name = ''Quick Validation'',
                                     suite_description = [], total_test_count = 6\<rparr>
                          else None),
      start_test_run = (\<lambda>sid. Inr (fixture_run RUNNING)),
      polls = obs,
      refreshed_run = Some (fixture_run final),
      analyze = (\<lambda>run. fixture_report ok n []),
      regression_run = Some (fixture_run final),
      get_baseline = (\<lambda>bid. if bid = ''base'' then Some \<lparr>baseline_id = bid\<rparr> else None),
      analyze_baseline = (\<lambda>run bl threshold. fixture_report ok n regs)\<rparr>"

text \<open>
  The command line \<^verbatim>\<open>--suite quick_validation\<close>, the observations of a run that
  completes at the second pass, and those of a run that is still RUNNING after 300 seconds.
\<close>

definition fixture_command_line :: command_line where
  "fixture_command_line =
     \<lparr>given_suite = Some ''quick_validation'', given_list_suites = False,
      given_timeout = None, given_mock = False, given_no_mock = False,
      given_baseline = None, given_regression_threshold = None, given_output = None,
      given_ci = False, given_fail_on_regression = False\<rparr>"

definition fixture_args :: args where
  "fixture_args = parse_args fixture_command_line"

definition completing_polls :: "(real \<times> TestRun option) list" where
  "completing_polls =
     [(0.001, Some (fixture_run RUNNING)), (0.502, Some (fixture_run COMPLETED))]"

definition stuck_polls :: "(real \<times> TestRun option) list" where
  "stuck_polls = [(0.001, Some (fixture_run RUNNING)), (300.002, Some (fixture_run RUNNING))]"

section \<open>Theorems\<close>

text \<open>
  C2. For every idle duration and every thresholds set, \<^verbatim>\<open>_calculate_state\<close>
  returns DORMANT from \<open>dormant\<close> on, else COLD from \<open>cold\<close> on, else COOL from
  \<open>cool\<close> on, else WARM from \<open>warm\<close> on, else ACTIVE. The bounds are inclusive: for
  thresholds that satisfy their invariant, an idle time of exactly \<open>warm\<close> gives WARM.
\<close>

theorem calculate_state_tiers:
  "calculate_state th t = calculate_state_cascade th t
   \<and> (monotone_thresholds th \<longrightarrow> calculate_state th (warm th) = WARM)"
  by (simp add: calculate_state_def calculate_state_cascade_def monotone_thresholds_def)

theorem calculate_state_tiers_witness:
  "calculate_state \<lparr>warm = 10, cool = 60, cold = 300, dormant = 1800\<rparr> 120 = COOL
   \<and> monotone_thresholds \<lparr>warm = 10, cool = 60, cold = 300, dormant = 1800\<rparr>
   \<and> calculate_state \<lparr>warm = 10, cool = 60, cold = 300, dormant = 1800\<rparr> 10 = WARM"
  using calculate_state_tiers [of "\<lparr>warm = 10, cool = 60, cold = 300, dormant = 1800\<rparr>" 120]
  by (simp add: calculate_state_cascade_def monotone_thresholds_def)


subsection \<open>Power modes\<close>

lemma set_mode_registry: "POWER_MODES (snd (set_mode s mode_id)) = POWER_MODES s"
  by (simp add: set_mode_def split: option.splits)

text \<open>No operation on profiles removes a built-in mode from the registry.\<close>

lemma builtins_registered_create:
  "builtins_registered s \<Longrightarrow> builtins_registered (snd (create_profile s pid nm descr d en))"
  by (auto simp add: builtins_registered_def create_profile_def list_all_iff)

lemma builtins_registered_update:
  "builtins_registered s \<Longrightarrow> builtins_registered (snd (update_profile s pid nm descr d en))"
  by (auto simp add: builtins_registered_def update_profile_def Let_def list_all_iff
        split: option.splits)

lemma builtins_registered_delete:
  "builtins_registered s \<Longrightarrow> builtins_registered (snd (delete_profile s pid))"
  by (auto simp add: builtins_registered_def delete_profile_def Let_def list_all_iff
        is_builtin_def set_mode_registry split: option.splits)

lemma balanced_registered: "builtins_registered s \<Longrightarrow> POWER_MODES s ''balanced'' \<noteq> None"
  by (simp add: builtins_registered_def builtin_ids_def)

text \<open>
  C5. Built-in power modes are immutable: \<^verbatim>\<open>create_profile\<close>,
  \<^verbatim>\<open>update_profile\<close> and \<^verbatim>\<open>delete_profile\<close> on a built-in id return False and
  leave the registry (and the manager) as they were. Deleting a registered custom profile
  that is the current mode succeeds, removes it, and switches the current mode to
  \<open>balanced\<close>.
\<close>

theorem builtin_profiles_immutable:
  "(is_builtin pid \<longrightarrow>
      create_profile s pid nm descr d en = (False, s)
      \<and> update_profile s pid nm' descr' d' en' = (False, s)
      \<and> delete_profile s pid = (False, s))
   \<and> (builtins_registered s \<and> \<not> is_builtin pid \<and> POWER_MODES s pid \<noteq> None
        \<and> current_mode (manager s) = pid \<longrightarrow>
        fst (delete_profile s pid)
        \<and> POWER_MODES (snd (delete_profile s pid)) = (POWER_MODES s)(pid := None)
        \<and> current_mode (manager (snd (delete_profile s pid))) = ''balanced'')"
proof -
  have "current_mode (manager (snd (delete_profile s pid))) = ''balanced''"
    and "POWER_MODES (snd (delete_profile s pid)) = (POWER_MODES s)(pid := None)"
    and "fst (delete_profile s pid)"
    if reg: "builtins_registered s" and cust: "\<not> is_builtin pid"
      and present: "POWER_MODES s pid \<noteq> None" and cur: "current_mode (manager s) = pid"
  proof -
    have ne: "pid \<noteq> ''balanced''"
      using cust by (auto simp add: is_builtin_def builtin_ids_def)
    obtain pm where pm: "POWER_MODES s ''balanced'' = Some pm"
      using balanced_registered [OF reg] by auto
    obtain old where old: "POWER_MODES s pid = Some old"
      using present by auto
    show "current_mode (manager (snd (delete_profile s pid))) = ''balanced''"
      using ne pm old cur cust by (simp add: delete_profile_def set_mode_def Let_def)
    show "POWER_MODES (snd (delete_profile s pid)) = (POWER_MODES s)(pid := None)"
      using ne pm old cur cust by (simp add: delete_profile_def set_mode_def Let_def)
    show "fst (delete_profile s pid)"
      using old cust by (simp add: delete_profile_def Let_def)
  qed
  then show ?thesis
    by (simp add: create_profile_def update_profile_def delete_profile_def)
qed

theorem builtin_profiles_immutable_witness:
  "is_builtin ''balanced''
   \<and> create_profile fixture_system ''balanced'' ''My Balanced'' ''Override'' [''warm'' \<mapsto> 10] True
       = (False, fixture_system)
   \<and> update_profile fixture_system ''balanced'' (Some ''New Name'') None None None
       = (False, fixture_system)
   \<and> delete_profile fixture_system ''balanced'' = (False, fixture_system)
   \<and> builtins_registered custom_system \<and> \<not> is_builtin ''current_test''
   \<and> POWER_MODES custom_system ''current_test'' \<noteq> None
   \<and> current_mode (manager custom_system) = ''current_test''
   \<and> fst (delete_profile custom_system ''current_test'')
   \<and> current_mode (manager (snd (delete_profile custom_system ''current_test''))) = ''balanced''"
proof -
  have b: "is_builtin ''balanced''"
    by (simp add: is_builtin_def builtin_ids_def)
  have r: "builtins_registered custom_system"
    by (simp add: builtins_registered_def builtin_ids_def custom_system_def fixture_registry_def)
  have c: "\<not> is_builtin ''current_test''"
    by (simp add: is_builtin_def builtin_ids_def)
  have p: "POWER_MODES custom_system ''current_test'' \<noteq> None"
    by (simp add: custom_system_def)
  have m: "current_mode (manager custom_system) = ''current_test''"
    by (simp add: custom_system_def)
  show ?thesis
    using b r c p m
      builtin_profiles_immutable [of "''balanced''" fixture_system "''My Balanced''" "''Override''"
        "[''warm'' \<mapsto> 10]" True "Some ''New Name''" None None None]
      builtin_profiles_immutable [of "''current_test''" custom_system]
    by simp
qed

text \<open>
  C6. \<^verbatim>\<open>set_thresholds\<close> merges the supplied values over the current thresholds: a
  supplied key replaces the field of its name, every other field keeps its value. When the
  merged thresholds are strictly increasing they become the thresholds and the current mode
  becomes \<open>custom\<close>; when they are not, the call is rejected and the manager, its
  thresholds included, is unchanged.
\<close>

theorem set_thresholds_merges:
  "(monotone_thresholds (merge_thresholds (thresholds m) d) \<longrightarrow>
      set_thresholds m d
        = (True, m\<lparr>thresholds := merge_thresholds (thresholds m) d, current_mode := ''custom''\<rparr>))
   \<and> (\<not> monotone_thresholds (merge_thresholds (thresholds m) d) \<longrightarrow>
        set_thresholds m d = (False, m))
   \<and> warm (merge_thresholds th d) = (case d ''warm'' of Some v \<Rightarrow> v | None \<Rightarrow> warm th)
   \<and> cool (merge_thresholds th d) = (case d ''cool'' of Some v \<Rightarrow> v | None \<Rightarrow> cool th)
   \<and> cold (merge_thresholds th d) = (case d ''cold'' of Some v \<Rightarrow> v | None \<Rightarrow> cold th)
   \<and> dormant (merge_thresholds th d)
       = (case d ''dormant'' of Some v \<Rightarrow> v | None \<Rightarrow> dormant th)"
  by (simp add: set_thresholds_def Let_def merge_thresholds_def)

theorem set_thresholds_merges_witness:
  "monotone_thresholds (merge_thresholds (thresholds fixture_manager) [''warm'' \<mapsto> 5, ''cool'' \<mapsto> 30])
   \<and> thresholds (snd (set_thresholds fixture_manager [''warm'' \<mapsto> 5, ''cool'' \<mapsto> 30]))
       = \<lparr>warm = 5, cool = 30, cold = 300, dormant = 1800\<rparr>
   \<and> current_mode (snd (set_thresholds fixture_manager [''warm'' \<mapsto> 5, ''cool'' \<mapsto> 30])) = ''custom''
   \<and> \<not> monotone_thresholds (merge_thresholds (thresholds fixture_manager) [''warm'' \<mapsto> 90])
   \<and> set_thresholds fixture_manager [''warm'' \<mapsto> 90] = (False, fixture_manager)"
proof -
  have a: "monotone_thresholds
             (merge_thresholds (thresholds fixture_manager) [''warm'' \<mapsto> 5, ''cool'' \<mapsto> 30])"
    by (simp add: monotone_thresholds_def merge_thresholds_def fixture_manager_def)
  have r: "\<not> monotone_thresholds (merge_thresholds (thresholds fixture_manager) [''warm'' \<mapsto> 90])"
    by (simp add: monotone_thresholds_def merge_thresholds_def fixture_manager_def)
  have m: "merge_thresholds (thresholds fixture_manager) [''warm'' \<mapsto> 5, ''cool'' \<mapsto> 30]
             = \<lparr>warm = 5, cool = 30, cold = 300, dormant = 1800\<rparr>"
    by (simp add: merge_thresholds_def fixture_manager_def)
  show ?thesis
    using a r m
      set_thresholds_merges [of fixture_manager "[''warm'' \<mapsto> 5, ''cool'' \<mapsto> 30]"]
      set_thresholds_merges [of fixture_manager "[''warm'' \<mapsto> 90]"]
    by simp
qed

subsection \<open>Transitions\<close>

lemma ring_append_last: "0 < cap \<Longrightarrow> last (ring_append cap xs x) = x"
  by (simp add: ring_append_def)

lemma ring_append_length: "length (ring_append cap xs x) = min cap (Suc (length xs))"
  by (auto simp add: ring_append_def)

lemma ring_append_room: "length xs < cap \<Longrightarrow> ring_append cap xs x = xs @ [x]"
  by (simp add: ring_append_def)

lemma ring_append_set: "set (ring_append cap xs x) \<subseteq> insert x (set xs)"
  unfolding ring_append_def
  using set_drop_subset [of "length (xs @ [x]) - cap" "xs @ [x]"] by auto

lemma ring_append_butlast:
  "0 < cap \<Longrightarrow> butlast (ring_append cap xs x) = drop (Suc (length xs) - cap) xs"
  by (simp add: ring_append_def butlast_drop)

lemma transition_to_history_ok:
  assumes "history_ok m"
  shows "history_ok (fst (transition_to now m target trig))"
proof (cases "target = current_state m")
  case True
  with assms show ?thesis by (simp add: transition_to_def)
next
  case False
  define tr where "tr = \<lparr>from_state = current_state m, to_state = target, trigger = trig,
                   timestamp = now, seconds_idle = now - last_activity m\<rparr>"
  have new: "from_state tr \<noteq> to_state tr"
    using False by (simp add: tr_def)
  have sub: "set (ring_append (history_capacity m) (transition_history m) tr)
               \<subseteq> insert tr (set (transition_history m))"
    by (rule ring_append_set)
  have old: "\<forall>t \<in> set (transition_history m). from_state t \<noteq> to_state t"
    using assms by (simp add: history_ok_def list_all_iff)
  have "\<forall>t \<in> set (ring_append (history_capacity m) (transition_history m) tr).
          from_state t \<noteq> to_state t"
    using sub old new by blast
  then show ?thesis
    using False by (simp add: transition_to_def Let_def history_ok_def list_all_iff tr_def)
qed

lemma transitions_history_ok:
  "history_ok m \<Longrightarrow> history_ok (transitions m reqs)"
  by (induction m reqs rule: transitions.induct) (simp_all add: transition_to_history_ok)

text \<open>
  C7. \<^verbatim>\<open>_transition_to\<close> with the current state as target does nothing: the manager
  is unchanged and no handler is invoked. With another target the state changes and exactly
  one entry is appended to the (bounded) history, the entries before it being the old ones:
  all of them while the history has room, the most recent ones otherwise. The new entry
  records the state left, the target and the trigger, and its two states differ. Hence over
  any sequence of transition requests every recorded transition has different states, if
  this held at the start.
\<close>

theorem transition_to_records:
  "(target = current_state m \<longrightarrow> transition_to now m target trig = (m, []))
   \<and> (target \<noteq> current_state m \<and> 100 \<le> history_capacity m \<longrightarrow>
        (let m' = fst (transition_to now m target trig);
             tr = last (transition_history m')
         in current_state m' = target
            \<and> transition_history m' = ring_append (history_capacity m) (transition_history m) tr
            \<and> butlast (transition_history m')
                = drop (Suc (length (transition_history m)) - history_capacity m)
                    (transition_history m)
            \<and> (length (transition_history m) < history_capacity m \<longrightarrow>
                  transition_history m' = transition_history m @ [tr])
            \<and> from_state tr = current_state m \<and> to_state tr = target \<and> trigger tr = trig
            \<and> from_state tr \<noteq> to_state tr))
   \<and> (history_ok m \<longrightarrow> history_ok (transitions m reqs))"
  by (auto simp add: transitions_history_ok transition_to_def Let_def ring_append_last
        ring_append_butlast ring_append_room)

theorem transition_to_records_witness:
  "transition_to 15 (fixture_manager\<lparr>current_state := WARM\<rparr>) WARM ''timeout''
     = (fixture_manager\<lparr>current_state := WARM\<rparr>, [])
   \<and> WARM \<noteq> current_state fixture_manager \<and> 100 \<le> history_capacity fixture_manager
   \<and> transition_history (fst (transition_to 15 fixture_manager WARM ''timeout''))
       = [\<lparr>from_state = ACTIVE, to_state = WARM, trigger = ''timeout'', timestamp = 15,
           seconds_idle = 15\<rparr>]
   \<and> history_ok fixture_manager
   \<and> history_ok (transitions fixture_manager [(15, WARM, ''timeout''), (16, WARM, ''timeout''),
                    (70, COOL, ''timeout''), (100, ACTIVE, ''activity'')])"
proof -
  have s: "WARM = current_state (fixture_manager\<lparr>current_state := WARM\<rparr>)"
    by simp
  have d: "WARM \<noteq> current_state fixture_manager" and c: "100 \<le> history_capacity fixture_manager"
    and h: "history_ok fixture_manager"
    by (simp_all add: fixture_manager_def history_ok_def)
  have v: "transition_history (fst (transition_to 15 fixture_manager WARM ''timeout''))
       = [\<lparr>from_state = ACTIVE, to_state = WARM, trigger = ''timeout'', timestamp = 15,
           seconds_idle = 15\<rparr>]"
    by (simp add: transition_to_def fixture_manager_def ring_append_def)
  show ?thesis
    using s d c h v
      transition_to_records [of WARM "fixture_manager\<lparr>current_state := WARM\<rparr>" 15 "''timeout''"]
      transition_to_records [of WARM fixture_manager 15 "''timeout''"
        "[(15, WARM, ''timeout''), (16, WARM, ''timeout''), (70, COOL, ''timeout''),
          (100, ACTIVE, ''activity'')]"]
    by simp
qed


subsection \<open>Audio requests\<close>

text \<open>
  C1, as amended. When the session has a bound topic, a segment table exists for it, the
  index lies within the table and the session cache delivers the audio of the segment, the
  handler sends exactly one message, of type \<open>audio\<close>, whose segment index is the
  requested one and whose total is the length of the table, and the playback state becomes
  \<open>(segment_index, 0, playing)\<close>. When the cache fails instead, exactly one error
  message is sent. When a precondition fails, exactly one error message is sent and the
  session, its playback state included, is unchanged.
\<close>

theorem audio_request_outcome:
  "(topic_segments h session = Some segs \<and> 0 \<le> idx \<and> idx < int (length segs)
      \<and> session_cache h session (segs ! nat idx) = Inr a \<longrightarrow>
        sent_messages (handle_audio_request h session idx)
          = [Audio \<lparr>frame_segment_index = idx, audio_base64 = b64encode h (audio_data a),
                    duration_seconds = duration a, total_segments = length segs,
                    cache_hit = was_cache_hit a\<rparr>]
        \<and> map msg_type (sent_messages (handle_audio_request h session idx)) = [''audio'']
        \<and> session_after (handle_audio_request h session idx) = update_playback session idx 0 True
        \<and> segment_index (playback_state (session_after (handle_audio_request h session idx))) = idx
        \<and> offset_ms (playback_state (session_after (handle_audio_request h session idx))) = 0
        \<and> is_playing (playback_state (session_after (handle_audio_request h session idx))))
   \<and> (topic_segments h session = Some segs \<and> 0 \<le> idx \<and> idx < int (length segs)
        \<and> session_cache h session (segs ! nat idx) = Inl e \<longrightarrow>
        sent_messages (handle_audio_request h session idx) = [Error e])
   \<and> (\<not> request_preconditions h session idx \<longrightarrow>
        map msg_type (sent_messages (handle_audio_request h session idx)) = [''error'']
        \<and> session_after (handle_audio_request h session idx) = session)"
  by (auto simp add: handle_audio_request_def topic_segments_def request_preconditions_def
        update_playback_def Let_def split: option.splits)

theorem audio_request_outcome_witness:
  "topic_segments (fixture_handler working_cache) fixture_session
     = Some [''Segment one text'', ''Segment two text'', ''Segment three text'']
   \<and> map msg_type (sent_messages (handle_audio_request (fixture_handler working_cache)
                                     fixture_session 2)) = [''audio'']
   \<and> segment_index (playback_state (session_after
         (handle_audio_request (fixture_handler working_cache) fixture_session 2))) = 2
   \<and> is_playing (playback_state (session_after
         (handle_audio_request (fixture_handler working_cache) fixture_session 2)))
   \<and> sent_messages (handle_audio_request (fixture_handler failing_cache) fixture_session 2)
       = [Error provider_error]
   \<and> \<not> request_preconditions (fixture_handler working_cache) fixture_session 999
   \<and> map msg_type (sent_messages (handle_audio_request (fixture_handler working_cache)
                                     fixture_session 999)) = [''error'']
   \<and> session_after (handle_audio_request (fixture_handler working_cache) fixture_session 999)
       = fixture_session"
proof -
  let ?segs = "[''Segment one text'', ''Segment two text'', ''Segment three text'']"
  have t: "topic_segments (fixture_handler working_cache) fixture_session = Some ?segs"
    and t': "topic_segments (fixture_handler failing_cache) fixture_session = Some ?segs"
    by (simp_all add: topic_segments_def fixture_handler_def fixture_session_def)
  have c: "session_cache (fixture_handler working_cache) fixture_session (?segs ! nat 2)
             = Inr \<lparr>audio_data = ''test-audio-data'', was_cache_hit = True, duration = 2.5\<rparr>"
    by (simp add: fixture_handler_def working_cache_def)
  have c': "session_cache (fixture_handler failing_cache) fixture_session (?segs ! nat 2)
             = Inl provider_error"
    by (simp add: fixture_handler_def failing_cache_def)
  have n: "\<not> request_preconditions (fixture_handler working_cache) fixture_session 999"
    by (simp add: request_preconditions_def t)
  show ?thesis
    using t t' c c' n
      audio_request_outcome [of "fixture_handler working_cache" fixture_session ?segs 2
        "\<lparr>audio_data = ''test-audio-data'', was_cache_hit = True, duration = 2.5\<rparr>"
        provider_error]
      audio_request_outcome [of "fixture_handler failing_cache" fixture_session ?segs 2
        "\<lparr>audio_data = ''test-audio-data'', was_cache_hit = True, duration = 2.5\<rparr>"
        provider_error]
      audio_request_outcome [of "fixture_handler working_cache" fixture_session ?segs 999
        "\<lparr>audio_data = ''test-audio-data'', was_cache_hit = True, duration = 2.5\<rparr>"
        provider_error]
    by (simp add: update_playback_def)
qed

text \<open>
  C1 as stated does not hold: with a bound topic, a table of three segments and the index 0
  within it, a session cache that fails makes the handler answer with an error message and
  not with an audio message.
\<close>

theorem audio_request_cache_failure_counterexample:
  "request_preconditions (fixture_handler failing_cache) fixture_session 0
   \<and> topic_segments (fixture_handler failing_cache) fixture_session
       = Some [''Segment one text'', ''Segment two text'', ''Segment three text'']
   \<and> map msg_type (sent_messages (handle_audio_request (fixture_handler failing_cache)
                                     fixture_session 0)) = [''error'']
   \<and> map msg_type (sent_messages (handle_audio_request (fixture_handler failing_cache)
                                     fixture_session 0)) \<noteq> [''audio'']
   \<and> \<not> is_playing (playback_state (session_after
           (handle_audio_request (fixture_handler failing_cache) fixture_session 0)))"
  by (simp add: request_preconditions_def topic_segments_def handle_audio_request_def
        fixture_handler_def fixture_session_def failing_cache_def)


subsection \<open>The waiting loop\<close>

lemma cancelled_runs_append: "cancelled_runs (xs @ ys) = cancelled_runs xs @ cancelled_runs ys"
  by (induction xs rule: cancelled_runs.induct) simp_all

lemma registered_clients_append:
  "registered_clients (xs @ ys) = registered_clients xs @ registered_clients ys"
  by (induction xs rule: registered_clients.induct) simp_all

lemma wait_loop_times_out:
  assumes "status run = RUNNING" and "still_running t pre" and "real_of_int t < e"
  shows "\<exists>calls r. wait_loop t (Some run) (pre @ (e, f) # post)
                    = Some (calls @ [CancelRun (run_id r)], Inl (TimeoutError t))
               \<and> cancelled_runs calls = []
               \<and> last (Some run # map snd pre) = Some r"
  using assms
proof (induction pre arbitrary: run)
  case Nil
  then show ?case by simp
next
  case (Cons p pre)
  obtain e' f' where p: "p = (e', f')" by (cases p)
  from Cons.prems p obtain r' where f': "f' = Some r'" and r': "status r' = RUNNING"
    and e': "e' \<le> real_of_int t" and rest: "still_running t pre"
    by (auto simp add: still_running_def split: option.splits)
  from Cons.IH [OF r' rest Cons.prems(3)] obtain calls r where
    w: "wait_loop t (Some r') (pre @ (e, f) # post)
          = Some (calls @ [CancelRun (run_id r)], Inl (TimeoutError t))"
    and c: "cancelled_runs calls = []" and l: "last (Some r' # map snd pre) = Some r"
    by blast
  have "wait_loop t (Some run) ((p # pre) @ (e, f) # post)
          = Some ((Sleep # GetRun (run_id run) # calls) @ [CancelRun (run_id r)],
                  Inl (TimeoutError t))"
    using Cons.prems(1) p f' e' w by simp
  moreover have "cancelled_runs (Sleep # GetRun (run_id run) # calls) = []"
    using c by simp
  moreover have "last (Some run # map snd (p # pre)) = Some r"
    using l p f' by simp
  ultimately show ?case by blast
qed

lemma wait_loop_leaves:
  assumes "status run = RUNNING" and "still_running t pre" and "e \<le> real_of_int t"
    and "status r \<noteq> RUNNING"
  shows "\<exists>calls. wait_loop t (Some run) (pre @ (e, Some r) # post) = Some (calls, Inr r)
               \<and> cancelled_runs calls = []"
  using assms
proof (induction pre arbitrary: run)
  case Nil
  then show ?case by simp
next
  case (Cons p pre)
  obtain e' f' where p: "p = (e', f')" by (cases p)
  from Cons.prems p obtain r' where f': "f' = Some r'" and r': "status r' = RUNNING"
    and e': "e' \<le> real_of_int t" and rest: "still_running t pre"
    by (auto simp add: still_running_def split: option.splits)
  from Cons.IH [OF r' rest Cons.prems(3) Cons.prems(4)] obtain calls where
    w: "wait_loop t (Some r') (pre @ (e, Some r) # post) = Some (calls, Inr r)"
    and c: "cancelled_runs calls = []"
    by blast
  have "wait_loop t (Some run) ((p # pre) @ (e, Some r) # post)
          = Some (Sleep # GetRun (run_id run) # calls, Inr r)"
    using Cons.prems(1) p f' e' w by simp
  then show ?case using c by simp
qed

lemma wait_loop_cancel_only_on_timeout:
  assumes "wait_loop t cur obs = Some (calls, res)" and "cancelled_runs calls \<noteq> []"
  shows "res = Inl (TimeoutError t)
         \<and> (\<exists>pre e f post r. obs = pre @ (e, f) # post \<and> still_running t pre
               \<and> real_of_int t < e \<and> last (cur # map snd pre) = Some r \<and> status r = RUNNING
               \<and> cancelled_runs calls = [run_id r] \<and> last calls = CancelRun (run_id r))"
  using assms
proof (induction obs arbitrary: cur calls res)
  case Nil
  then show ?case
    by (cases cur) (auto split: if_splits)
next
  case (Cons p rest)
  obtain e f where p: "p = (e, f)" by (cases p)
  show ?case
  proof (cases cur)
    case None
    with Cons.prems show ?thesis by simp
  next
    case (Some run)
    show ?thesis
    proof (cases "status run = RUNNING")
      case False
      with Cons.prems Some show ?thesis by simp
    next
      case True
      show ?thesis
      proof (cases "real_of_int t < e")
        case late: True
        have "calls = [CancelRun (run_id run)]" and "res = Inl (TimeoutError t)"
          using Cons.prems(1) True Some p late by simp_all
        moreover have "p # rest = [] @ (e, f) # rest" using p by simp
        moreover have "still_running t []" by (simp add: still_running_def)
        moreover have "last (cur # map snd []) = Some run" using Some by simp
        ultimately show ?thesis using late True
          by (metis cancelled_runs.simps(1,2) last.simps)
      next
        case early: False
        from Cons.prems(1) True Some p early obtain calls' where
          w: "wait_loop t f rest = Some (calls', res)"
          and calls: "calls = Sleep # GetRun (run_id run) # calls'"
          by (auto split: if_splits)
        have ne: "cancelled_runs calls' \<noteq> []"
          using Cons.prems(2) calls by simp
        from Cons.IH [OF w ne] obtain pre e2 f2 post r where
          res: "res = Inl (TimeoutError t)"
          and rest: "rest = pre @ (e2, f2) # post" and sr: "still_running t pre"
          and late: "real_of_int t < e2" and l: "last (f # map snd pre) = Some r"
          and st: "status r = RUNNING"
          and cs: "cancelled_runs calls' = [run_id r]"
          and lc: "last calls' = CancelRun (run_id r)"
          by blast
        have f_ok: "case f of Some r' \<Rightarrow> status r' = RUNNING | None \<Rightarrow> False"
        proof (cases f)
          case None
          with w ne show ?thesis by simp
        next
          case (Some r')
          show ?thesis
          proof (cases "status r' = RUNNING")
            case True
            with Some show ?thesis by simp
          next
            case False
            with Some w ne show ?thesis by simp
          qed
        qed
        have c1: "p # rest = (p # pre) @ (e2, f2) # post" using rest by simp
        have c2: "still_running t (p # pre)"
          using sr p early f_ok by (simp add: still_running_def)
        have c3: "last (cur # map snd (p # pre)) = Some r"
          using l p by simp
        have c4: "cancelled_runs calls = [run_id r]"
          using cs calls by simp
        have "calls' \<noteq> []" using ne by auto
        then have c5: "last calls = CancelRun (run_id r)"
          using lc calls by simp
        from res c1 c2 late c3 st c4 c5 show ?thesis by blast
      qed
    qed
  qed
qed

lemma wait_loop_returns:
  assumes "\<exists>p \<in> set obs. real_of_int t < fst p"
  shows "wait_loop t cur obs \<noteq> None"
  using assms
proof (induction obs arbitrary: cur)
  case Nil
  then show ?case by simp
next
  case (Cons p rest)
  obtain e f where p: "p = (e, f)" by (cases p)
  show ?case
  proof (cases cur)
    case None
    then show ?thesis by simp
  next
    case (Some run)
    show ?thesis
    proof (cases "status run = RUNNING \<and> \<not> real_of_int t < e")
      case True
      then have "\<exists>q \<in> set rest. real_of_int t < fst q"
        using Cons.prems p by auto
      then have "wait_loop t f rest \<noteq> None" by (rule Cons.IH)
      with True Some p show ?thesis by simp
    next
      case False
      with Some p show ?thesis by auto
    qed
  qed
qed

subsection \<open>The shape of \<^verbatim>\<open>main\<close>\<close>

lemma finish_run_calls:
  "cancelled_runs (fst (finish_run env r)) = [] \<and> registered_clients (fst (finish_run env r)) = []"
  by (simp add: finish_run_def split: option.splits)

lemma check_regression_calls:
  "cancelled_runs (fst (check_regression env rid bid th)) = []
   \<and> registered_clients (fst (check_regression env rid bid th)) = []"
  by (simp add: check_regression_def Let_def split: option.splits)

lemma report_stage_calls:
  "cancelled_runs (fst (report_stage env a res)) = []
   \<and> registered_clients (fst (report_stage env a res)) = []"
  using check_regression_calls [of env "result_run_id res" "the (baseline a)" "regression_threshold a"]
  by (auto simp add: report_stage_def split: prod.splits sum.splits)

lemma after_loop_calls:
  "cancelled_runs (fst (after_loop env a ended)) = []
   \<and> registered_clients (fst (after_loop env a ended)) = []"
proof (cases ended)
  case (Inl e)
  then show ?thesis by (simp add: after_loop_def)
next
  case (Inr run)
  obtain c1 r1 where f: "finish_run env run = (c1, r1)" by (cases "finish_run env run")
  have c1: "cancelled_runs c1 = [] \<and> registered_clients c1 = []"
    using finish_run_calls [of env run] f by simp
  show ?thesis
  proof (cases r1)
    case (Inl e)
    with Inr f c1 show ?thesis by (simp add: after_loop_def)
  next
    case (Inr res)
    obtain c2 out where r: "report_stage env a res = (c2, out)"
      by (cases "report_stage env a res")
    have "cancelled_runs c2 = [] \<and> registered_clients c2 = []"
      using report_stage_calls [of env a res] r by simp
    with \<open>ended = Inr run\<close> Inr f c1 r show ?thesis
      by (simp add: after_loop_def cancelled_runs_append registered_clients_append)
  qed
qed

lemma main_body_started:
  assumes "starts_run env a sid run"
  shows "main_body env a =
           map_option (\<lambda>(calls, ended).
               (Initialize # calls_before_loop a sid @ calls @ fst (after_loop env a ended),
                snd (after_loop env a ended)))
             (wait_loop (timeout a) (Some run) (polls env))"
proof -
  from assms obtain sd where
    i: "initialize_error env = None" and l: "\<not> list_suites a" and s: "suite a = Some sid"
    and n: "sid \<noteq> []" and g: "get_suite env sid = Some sd"
    and st: "start_test_run env sid = Inr run"
    by (auto simp add: starts_run_def finds_suite_def)
  show ?thesis
  proof (cases "wait_loop (timeout a) (Some run) (polls env)")
    case None
    with i l s n g st show ?thesis
      by (simp add: main_body_def truthy_def run_test_def Let_def)
  next
    case (Some w)
    obtain calls ended where w: "w = (calls, ended)" by (cases w)
    show ?thesis
    proof (cases ended)
      case (Inl e)
      with Some w i l s n g st show ?thesis
        by (simp add: main_body_def truthy_def run_test_def Let_def calls_before_loop_def
              after_loop_def)
    next
      case (Inr run')
      obtain c1 r1 where f: "finish_run env run' = (c1, r1)" by (cases "finish_run env run'")
      show ?thesis
      proof (cases r1)
        case (Inl e)
        with Inr f Some w i l s n g st show ?thesis
          by (simp add: main_body_def truthy_def run_test_def Let_def calls_before_loop_def
                after_loop_def)
      next
        case r1: (Inr res)
        obtain c2 out where r: "report_stage env a res = (c2, out)"
          by (cases "report_stage env a res")
        from Inr r1 f r Some w i l s n g st show ?thesis
          by (simp add: main_body_def truthy_def run_test_def Let_def calls_before_loop_def
                after_loop_def)
      qed
    qed
  qed
qed

lemma main_body_not_started:
  assumes "main_body env a = Some (calls, outcome)" and "\<forall>sid run. \<not> starts_run env a sid run"
  shows "cancelled_runs calls = []"
proof (cases "initialize_error env")
  case (Some e)
  with assms(1) show ?thesis by (auto simp add: main_body_def)
next
  case None
  show ?thesis
  proof (cases "list_suites a \<or> \<not> truthy (suite a)")
    case True
    with None assms(1) show ?thesis by (auto simp add: main_body_def split: if_splits)
  next
    case False
    then obtain sid where s: "suite a = Some sid" and n: "sid \<noteq> []" and l: "\<not> list_suites a"
      by (auto simp add: truthy_def split: option.splits)
    show ?thesis
    proof (cases "get_suite env sid")
      case g: None
      with None s n l assms(1) show ?thesis
        by (auto simp add: main_body_def truthy_def run_test_def)
    next
      case g: (Some sd)
      show ?thesis
      proof (cases "start_test_run env sid")
        case (Inl e)
        with g None s n l assms(1) show ?thesis
          by (auto simp add: main_body_def truthy_def run_test_def Let_def)
      next
        case (Inr run)
        with g None s n l have "starts_run env a sid run"
          by (simp add: starts_run_def finds_suite_def)
        with assms(2) show ?thesis by blast
      qed
    qed
  qed
qed

lemma report_stage_code: "snd (report_stage env a res) = Inr c \<Longrightarrow> c = 0 \<or> c = 1"
  by (auto simp add: report_stage_def ci_gate_def regression_gate_def
        split: if_splits prod.splits sum.splits)

lemma after_loop_code: "snd (after_loop env a ended) = Inr c \<Longrightarrow> c = 0 \<or> c = 1"
proof (cases ended)
  case (Inl e)
  assume "snd (after_loop env a ended) = Inr c"
  with Inl show ?thesis by (simp add: after_loop_def)
next
  case (Inr run)
  assume h: "snd (after_loop env a ended) = Inr c"
  obtain c1 r1 where f: "finish_run env run = (c1, r1)" by (cases "finish_run env run")
  show ?thesis
  proof (cases r1)
    case (Inl e)
    with Inr f h show ?thesis by (simp add: after_loop_def)
  next
    case r1: (Inr res)
    obtain c2 out where r: "report_stage env a res = (c2, out)"
      by (cases "report_stage env a res")
    with Inr r1 f h have "out = Inr c" by (simp add: after_loop_def)
    with r report_stage_code [of env a res c] show ?thesis by simp
  qed
qed

lemma main_body_code:
  assumes "main_body env a = Some (calls, Inr c)"
  shows "c = 0 \<or> c = 1"
proof (cases "\<exists>sid run. starts_run env a sid run")
  case True
  then obtain sid run where st: "starts_run env a sid run" by blast
  from assms main_body_started [OF st] obtain wc ended where
    "snd (after_loop env a ended) = Inr c"
    by (auto split: prod.splits)
  then show ?thesis by (rule after_loop_code)
next
  case False
  show ?thesis
  proof (cases "initialize_error env")
    case (Some e)
    with assms show ?thesis by (auto simp add: main_body_def)
  next
    case None
    show ?thesis
    proof (cases "list_suites a \<or> \<not> truthy (suite a)")
      case True
      with None assms show ?thesis by (auto simp add: main_body_def split: if_splits)
    next
      case nl: False
      then obtain sid where s: "suite a = Some sid" and n: "sid \<noteq> []" and l: "\<not> list_suites a"
        by (auto simp add: truthy_def split: option.splits)
      show ?thesis
      proof (cases "get_suite env sid")
        case g: None
        with None s n l assms show ?thesis
          by (auto simp add: main_body_def truthy_def run_test_def)
      next
        case g: (Some sd)
        show ?thesis
        proof (cases "start_test_run env sid")
          case (Inl e)
          with g None s n l assms show ?thesis
            by (auto simp add: main_body_def truthy_def run_test_def Let_def)
        next
          case (Inr run)
          with g None s n l have "starts_run env a sid run"
            by (simp add: starts_run_def finds_suite_def)
          with False show ?thesis by blast
        qed
      qed
    qed
  qed
qed

lemma wait_loop_registers_nothing:
  "wait_loop t cur obs = Some (calls, res) \<Longrightarrow> registered_clients calls = []"
proof (induction obs arbitrary: cur calls res)
  case Nil
  then show ?case by (cases cur) (auto split: if_splits)
next
  case (Cons p rest)
  obtain e f where p: "p = (e, f)" by (cases p)
  show ?case
  proof (cases cur)
    case None
    with Cons.prems show ?thesis by simp
  next
    case (Some run)
    show ?thesis
    proof (cases "status run = RUNNING \<and> \<not> real_of_int t < e")
      case True
      with Cons.prems Some p obtain calls' where
        w: "wait_loop t f rest = Some (calls', res)"
        and c: "calls = Sleep # GetRun (run_id run) # calls'"
        by (auto split: if_splits)
      from Cons.IH [OF w] c show ?thesis by simp
    next
      case False
      with Cons.prems Some p show ?thesis by (auto split: if_splits)
    qed
  qed
qed

lemma main_exit_code:
  "main_body env a = Some (calls, outcome) \<Longrightarrow>
     main env a = Some (calls @ [Shutdown], exit_code_of outcome)
     \<and> exit_code env a = Some (exit_code_of outcome)"
  by (simp add: main_def exit_code_def)

lemma exit_code_of_cases:
  "exit_code_of (Inl e) = (case e of TimeoutError t \<Rightarrow> 2 | _ \<Rightarrow> 1)"
  by (cases e) simp_all

lemma main_body_report:
  assumes "reaches_report env a res"
  shows "\<exists>calls. main_body env a
           = Some (Initialize # calls @ fst (report_stage env a res),
                   snd (report_stage env a res))"
proof -
  from assms obtain calls where
    r: "run_test env (the (suite a)) (timeout a) (mock a \<and> \<not> no_mock a) = Some (calls, Inr res)"
    and i: "initialize_error env = None" and l: "\<not> list_suites a" and t: "truthy (suite a)"
    by (auto simp add: reaches_report_def)
  obtain c2 out where rs: "report_stage env a res = (c2, out)"
    by (cases "report_stage env a res")
  from r i l t rs have "main_body env a = Some (Initialize # calls @ c2, out)"
    by (simp add: main_body_def)
  with rs show ?thesis by auto
qed

lemma report_stage_outcome:
  "snd (report_stage env a res) =
     (case regression_check env a res of
        None \<Rightarrow> Inr (ci_gate a res 0)
      | Some (Inl e) \<Rightarrow> Inl e
      | Some (Inr rr) \<Rightarrow> Inr (ci_gate a res (regression_gate a rr 0)))"
  by (auto simp add: report_stage_def regression_check_def split: prod.splits sum.splits)

lemma check_regression_raises:
  "snd (check_regression env rid bid th) = Inl e \<Longrightarrow> \<exists>msg. e = ValueError msg"
  by (auto simp add: check_regression_def Let_def split: option.splits)

lemma check_regression_result:
  "snd (check_regression env rid bid th) = Inr rr \<Longrightarrow>
     \<exists>run bl. regression_run env = Some run \<and> get_baseline env bid = Some bl
        \<and> reported_regressions rr = regressions (analyze_baseline env run bl th)
        \<and> regression_count rr = length (regressions (analyze_baseline env run bl th))
        \<and> (has_regressions rr \<longleftrightarrow> regressions (analyze_baseline env run bl th) \<noteq> [])
        \<and> (pass rr \<longleftrightarrow> \<not> has_regressions rr)"
  by (auto simp add: check_regression_def Let_def split: option.splits)

lemma report_exit_code:
  assumes "reaches_report env a res"
  shows "exit_code env a =
     (case regression_check env a res of
        None \<Rightarrow> Some (if ci a \<and> success_rate (result_summary res) < 100 then 1 else 0)
      | Some (Inl e) \<Rightarrow> Some 1
      | Some (Inr rr) \<Rightarrow>
          Some (if (fail_on_regression a \<and> has_regressions rr)
                   \<or> (ci a \<and> success_rate (result_summary res) < 100) then 1 else 0))"
proof -
  from main_body_report [OF assms] obtain calls where
    b: "main_body env a = Some (Initialize # calls @ fst (report_stage env a res),
                               snd (report_stage env a res))"
    by blast
  have e: "exit_code env a = Some (exit_code_of (snd (report_stage env a res)))"
    using main_exit_code [OF b] by simp
  show ?thesis
  proof (cases "regression_check env a res")
    case None
    with e show ?thesis by (simp add: report_stage_outcome ci_gate_def)
  next
    case (Some r)
    show ?thesis
    proof (cases r)
      case (Inl x)
      with Some have "snd (check_regression env (result_run_id res) (the (baseline a))
                        (regression_threshold a)) = Inl x"
        by (simp add: regression_check_def split: if_splits)
      then obtain msg where "x = ValueError msg"
        using check_regression_raises by blast
      with Some Inl e show ?thesis by (simp add: report_stage_outcome)
    next
      case (Inr rr)
      with Some e show ?thesis
        by (simp add: report_stage_outcome ci_gate_def regression_gate_def)
    qed
  qed
qed

lemma wait_loop_snd:
  "map_option snd (wait_loop t cur obs) = Some r \<Longrightarrow> \<exists>calls. wait_loop t cur obs = Some (calls, r)"
  by (cases "wait_loop t cur obs") auto

lemma main_started_exit:
  assumes "starts_run env a sid run"
    and "wait_loop (timeout a) (Some run) (polls env) = Some (calls, ended)"
  shows "main env a = Some (Initialize # calls_before_loop a sid @ calls
                              @ fst (after_loop env a ended) @ [Shutdown],
                            exit_code_of (snd (after_loop env a ended)))"
  using main_body_started [OF assms(1)] assms(2) by (simp add: main_def)

lemma calls_before_loop_cancels: "cancelled_runs (calls_before_loop a sid) = []"
  by (simp add: calls_before_loop_def)

lemma main_returns:
  assumes "\<exists>p \<in> set (polls env). real_of_int (timeout a) < fst p"
  shows "main env a \<noteq> None"
proof (cases "\<exists>sid run. starts_run env a sid run")
  case True
  then obtain sid run where st: "starts_run env a sid run" by blast
  have "wait_loop (timeout a) (Some run) (polls env) \<noteq> None"
    using assms by (rule wait_loop_returns)
  with main_body_started [OF st] show ?thesis by (auto simp add: main_def)
next
  case False
  show ?thesis
  proof (cases "initialize_error env")
    case (Some e)
    then show ?thesis by (simp add: main_def main_body_def)
  next
    case None
    show ?thesis
    proof (cases "list_suites a \<or> \<not> truthy (suite a)")
      case True
      with None show ?thesis by (auto simp add: main_def main_body_def)
    next
      case nl: False
      then obtain sid where s: "suite a = Some sid" and n: "sid \<noteq> []" and l: "\<not> list_suites a"
        by (auto simp add: truthy_def split: option.splits)
      show ?thesis
      proof (cases "get_suite env sid")
        case g: None
        with None s n l show ?thesis
          by (simp add: main_def main_body_def truthy_def run_test_def)
      next
        case g: (Some sd)
        show ?thesis
        proof (cases "start_test_run env sid")
          case (Inl e)
          with g None s n l show ?thesis
            by (simp add: main_def main_body_def truthy_def run_test_def Let_def)
        next
          case (Inr run)
          with g None s n l have "starts_run env a sid run"
            by (simp add: starts_run_def finds_suite_def)
          with False show ?thesis by blast
        qed
      qed
    qed
  qed
qed

text \<open>
  C4. When the run is still RUNNING at every fetch while the clock of the loop stays within
  the timeout, and the clock then shows more than the timeout, the command line calls
  \<^verbatim>\<open>cancel_run\<close> on the run last fetched, raises \<^verbatim>\<open>TimeoutError\<close> and
  exits with code 2, the cancellation being its last call before the shutdown. A run that is
  found to have left RUNNING while the clock is within the timeout, or that was not RUNNING
  when started, is never cancelled. Conversely a cancellation happens only on that path: the
  run was fetched RUNNING and the clock showed more than the timeout, it is the only
  cancellation, and the exit code is 2.
\<close>

theorem timeout_cancels_run:
  "(starts_run env a sid run \<and> status run = RUNNING \<and> polls env = pre @ (e, f) # post
      \<and> still_running (timeout a) pre \<and> real_of_int (timeout a) < e \<longrightarrow>
      (\<exists>calls r. main env a = Some (calls @ [CancelRun (run_id r), Shutdown], 2)
          \<and> cancelled_runs calls = [] \<and> last (Some run # map snd pre) = Some r))
   \<and> (starts_run env a sid run \<and> status run = RUNNING \<and> polls env = pre @ (e, Some r') # post
        \<and> still_running (timeout a) pre \<and> e \<le> real_of_int (timeout a)
        \<and> status r' \<noteq> RUNNING \<longrightarrow>
        (\<exists>calls code. main env a = Some (calls, code) \<and> cancelled_runs calls = []))
   \<and> (starts_run env a sid run \<and> status run \<noteq> RUNNING \<longrightarrow>
        (\<exists>calls code. main env a = Some (calls, code) \<and> cancelled_runs calls = []))
   \<and> (main env a = Some (calls, code) \<and> cancelled_runs calls \<noteq> [] \<longrightarrow>
        code = 2
        \<and> (\<exists>sid run pre e f post r. starts_run env a sid run
              \<and> polls env = pre @ (e, f) # post \<and> still_running (timeout a) pre
              \<and> real_of_int (timeout a) < e \<and> last (Some run # map snd pre) = Some r
              \<and> status r = RUNNING \<and> cancelled_runs calls = [run_id r]))"
proof (intro conjI impI)
  assume h: "starts_run env a sid run \<and> status run = RUNNING \<and> polls env = pre @ (e, f) # post
      \<and> still_running (timeout a) pre \<and> real_of_int (timeout a) < e"
  then obtain wc r where
    w: "wait_loop (timeout a) (Some run) (polls env)
          = Some (wc @ [CancelRun (run_id r)], Inl (TimeoutError (timeout a)))"
    and c: "cancelled_runs wc = []" and l: "last (Some run # map snd pre) = Some r"
    using wait_loop_times_out [of run "timeout a" pre e f post] by auto
  from h have st: "starts_run env a sid run" by simp
  have "main env a = Some ((Initialize # calls_before_loop a sid @ wc)
                             @ [CancelRun (run_id r), Shutdown], 2)"
    using main_started_exit [OF st w] by (simp add: after_loop_def)
  moreover have "cancelled_runs (Initialize # calls_before_loop a sid @ wc) = []"
    using c by (simp add: cancelled_runs_append calls_before_loop_cancels)
  ultimately show "\<exists>calls r. main env a = Some (calls @ [CancelRun (run_id r), Shutdown], 2)
          \<and> cancelled_runs calls = [] \<and> last (Some run # map snd pre) = Some r"
    using l by blast
next
  assume h: "starts_run env a sid run \<and> status run = RUNNING
      \<and> polls env = pre @ (e, Some r') # post
      \<and> still_running (timeout a) pre \<and> e \<le> real_of_int (timeout a) \<and> status r' \<noteq> RUNNING"
  then obtain wc where
    w: "wait_loop (timeout a) (Some run) (polls env) = Some (wc, Inr r')"
    and c: "cancelled_runs wc = []"
    using wait_loop_leaves [of run "timeout a" pre e r' post] by auto
  from h have st: "starts_run env a sid run" by simp
  show "\<exists>calls code. main env a = Some (calls, code) \<and> cancelled_runs calls = []"
    using main_started_exit [OF st w] c after_loop_calls [of env a "Inr r'"]
    by (simp add: cancelled_runs_append calls_before_loop_cancels)
next
  assume h: "starts_run env a sid run \<and> status run \<noteq> RUNNING"
  then have w: "wait_loop (timeout a) (Some run) (polls env) = Some ([], Inr run)" by simp
  from h have st: "starts_run env a sid run" by simp
  show "\<exists>calls code. main env a = Some (calls, code) \<and> cancelled_runs calls = []"
    using main_started_exit [OF st w] after_loop_calls [of env a "Inr run"]
    by (simp add: cancelled_runs_append calls_before_loop_cancels)
next
  assume h: "main env a = Some (calls, code) \<and> cancelled_runs calls \<noteq> []"
  then obtain bc out where b: "main_body env a = Some (bc, out)"
    and calls: "calls = bc @ [Shutdown]" and code: "code = exit_code_of out"
    by (auto simp add: main_def)
  have bne: "cancelled_runs bc \<noteq> []"
    using h calls by (simp add: cancelled_runs_append)
  then obtain sid run where st: "starts_run env a sid run"
    using main_body_not_started [OF b] by blast
  from b main_body_started [OF st] obtain wc ended where
    w: "wait_loop (timeout a) (Some run) (polls env) = Some (wc, ended)"
    and bc: "bc = Initialize # calls_before_loop a sid @ wc @ fst (after_loop env a ended)"
    and out: "out = snd (after_loop env a ended)"
    by (auto split: prod.splits)
  have bcc: "cancelled_runs bc = cancelled_runs wc"
    using bc after_loop_calls [of env a ended]
    by (simp add: cancelled_runs_append calls_before_loop_cancels)
  with bne have wne: "cancelled_runs wc \<noteq> []" by simp
  from wait_loop_cancel_only_on_timeout [OF w wne] obtain pre e f post r where
    ended: "ended = Inl (TimeoutError (timeout a))"
    and p: "polls env = pre @ (e, f) # post" "still_running (timeout a) pre"
      "real_of_int (timeout a) < e" "last (Some run # map snd pre) = Some r" "status r = RUNNING"
    and cr: "cancelled_runs wc = [run_id r]"
    by blast
  have "code = 2" using code out ended by (simp add: after_loop_def)
  moreover have "cancelled_runs calls = [run_id r]"
    using calls bcc cr by (simp add: cancelled_runs_append)
  ultimately show "code = 2" and "\<exists>sid run pre e f post r. starts_run env a sid run
              \<and> polls env = pre @ (e, f) # post \<and> still_running (timeout a) pre
              \<and> real_of_int (timeout a) < e \<and> last (Some run # map snd pre) = Some r
              \<and> status r = RUNNING \<and> cancelled_runs calls = [run_id r]"
    using st p by blast+
qed

subsection \<open>The example invocations\<close>

lemmas cli_defs =
  main_def main_body_def run_test_def finish_run_def report_stage_def check_regression_def
  build_result_def compute_success_rate_def ci_gate_def regression_gate_def truthy_def
  parse_args_def store_true_def with_default_def exit_code_def Let_def

lemmas fixture_defs =
  fixture_env_def fixture_args_def fixture_command_line_def fixture_run_def
  fixture_report_def fixture_regression_def completing_polls_def stuck_polls_def

lemma stuck_main:
  "main (fixture_env stuck_polls COMPLETED 6 6 []) fixture_args
     = Some ([Initialize, GetSuite ''quick_validation'', RegisterClient ''cli_mock_client'',
              StartTestRun ''quick_validation'', Sleep, GetRun ''run-1'', CancelRun ''run-1'',
              Shutdown], 2)"
  by (simp add: cli_defs fixture_defs)

lemma completing_main:
  "main (fixture_env completing_polls COMPLETED 6 6 []) fixture_args
     = Some ([Initialize, GetSuite ''quick_validation'', RegisterClient ''cli_mock_client'',
              StartTestRun ''quick_validation'', Sleep, GetRun ''run-1'', Sleep, GetRun ''run-1'',
              GetRun ''run-1'', Analyze ''run-1'', Shutdown], 0)"
  by (simp add: cli_defs fixture_defs)

lemma fixture_starts_run:
  "starts_run (fixture_env obs final ok n regs) (fixture_args\<lparr>ci := c, baseline := b,
      fail_on_regression := fr, no_mock := nm, timeout := t\<rparr>)
     ''quick_validation'' (fixture_run RUNNING)"
  by (simp add: starts_run_def finds_suite_def cli_defs fixture_defs)

lemma fixture_reaches_report:
  "reaches_report (fixture_env completing_polls COMPLETED ok n regs)
     (fixture_args\<lparr>ci := c, baseline := b, fail_on_regression := fr\<rparr>)
     (build_result (fixture_run COMPLETED) (fixture_report ok n []))"
  by (simp add: reaches_report_def cli_defs fixture_defs)

lemma fixture_regression_check:
  "regression_check (fixture_env completing_polls COMPLETED ok n regs)
     (fixture_args\<lparr>ci := c, baseline := Some ''base'', fail_on_regression := fr\<rparr>)
     (build_result (fixture_run COMPLETED) (fixture_report ok n []))
   = Some (Inr \<lparr>reg_run_id = ''run-1'', reg_baseline_id = ''base'',
                 has_regressions = (regs \<noteq> []), regression_count = length regs,
                 severe_regression_count = length (filter (\<lambda>r. severity r = ''severe'') regs),
                 reported_regressions = regs, pass = (regs = [])\<rparr>)"
  by (simp add: regression_check_def cli_defs fixture_defs)


subsection \<open>Timeout of a run\<close>

theorem timeout_cancels_run_witness:
  "starts_run (fixture_env stuck_polls COMPLETED 6 6 []) fixture_args ''quick_validation''
     (fixture_run RUNNING)
   \<and> stuck_polls = [(0.001, Some (fixture_run RUNNING))] @ (300.002, Some (fixture_run RUNNING)) # []
   \<and> still_running (timeout fixture_args) [(0.001, Some (fixture_run RUNNING))]
   \<and> real_of_int (timeout fixture_args) < 300.002
   \<and> (\<exists>calls. main (fixture_env stuck_polls COMPLETED 6 6 []) fixture_args
          = Some (calls @ [CancelRun ''run-1'', Shutdown], 2) \<and> cancelled_runs calls = [])
   \<and> completing_polls = [(0.001, Some (fixture_run RUNNING))] @ (0.502, Some (fixture_run COMPLETED)) # []
   \<and> (\<exists>calls code. main (fixture_env completing_polls COMPLETED 6 6 []) fixture_args
          = Some (calls, code) \<and> cancelled_runs calls = [])
   \<and> (\<exists>calls code. main ((fixture_env [] COMPLETED 6 6 [])
                              \<lparr>start_test_run := (\<lambda>sid. Inr (fixture_run COMPLETED))\<rparr>) fixture_args
          = Some (calls, code) \<and> cancelled_runs calls = [])
   \<and> (\<exists>sid run pre e f post r.
          starts_run (fixture_env stuck_polls COMPLETED 6 6 []) fixture_args sid run
          \<and> polls (fixture_env stuck_polls COMPLETED 6 6 []) = pre @ (e, f) # post
          \<and> still_running (timeout fixture_args) pre \<and> real_of_int (timeout fixture_args) < e
          \<and> last (Some run # map snd pre) = Some r
          \<and> status r = RUNNING \<and> [''run-1''] = [run_id r])"
proof -
  let ?E = "fixture_env stuck_polls COMPLETED 6 6 []"
  let ?C = "fixture_env completing_polls COMPLETED 6 6 []"
  let ?D = "(fixture_env [] COMPLETED 6 6 [])\<lparr>start_test_run := (\<lambda>sid. Inr (fixture_run COMPLETED))\<rparr>"
  let ?run = "fixture_run RUNNING"
  let ?pre = "[(0.001, Some ?run)] :: (real \<times> TestRun option) list"
  have s: "starts_run ?E fixture_args ''quick_validation'' ?run"
    and s2: "starts_run ?C fixture_args ''quick_validation'' ?run"
    and s3: "starts_run ?D fixture_args ''quick_validation'' (fixture_run COMPLETED)"
    by (simp_all add: starts_run_def finds_suite_def cli_defs fixture_defs)
  have r: "status ?run = RUNNING" "status (fixture_run COMPLETED) \<noteq> RUNNING" "run_id ?run = ''run-1''"
    by (simp_all add: fixture_run_def)
  have p: "polls ?E = ?pre @ (300.002, Some ?run) # []"
    and p2: "polls ?C = ?pre @ (0.502, Some (fixture_run COMPLETED)) # []"
    by (simp_all add: fixture_env_def stuck_polls_def completing_polls_def)
  have sp: "stuck_polls = ?pre @ (300.002, Some ?run) # []"
    and cp: "completing_polls = ?pre @ (0.502, Some (fixture_run COMPLETED)) # []"
    by (simp_all add: stuck_polls_def completing_polls_def)
  have sr: "still_running (timeout fixture_args) ?pre"
    by (simp add: still_running_def cli_defs fixture_defs)
  have t: "real_of_int (timeout fixture_args) < 300.002" "0.502 \<le> real_of_int (timeout fixture_args)"
    by (simp_all add: cli_defs fixture_defs)
  have a: "\<exists>calls. main ?E fixture_args = Some (calls @ [CancelRun ''run-1'', Shutdown], 2)
             \<and> cancelled_runs calls = []"
    using timeout_cancels_run [of ?E fixture_args "''quick_validation''" ?run ?pre "300.002"
        "Some ?run" "[]"] s r p sr t
    by auto
  have b: "\<exists>calls code. main ?C fixture_args = Some (calls, code) \<and> cancelled_runs calls = []"
    using timeout_cancels_run [of ?C fixture_args "''quick_validation''" ?run ?pre "0.502"
        "Some ?run" "[]" "fixture_run COMPLETED"] s2 r p2 sr t
    by simp
  have c: "\<exists>calls code. main ?D fixture_args = Some (calls, code) \<and> cancelled_runs calls = []"
    using timeout_cancels_run [of ?D fixture_args "''quick_validation''" "fixture_run COMPLETED"] s3 r
    by simp
  from a obtain calls where
    m: "main ?E fixture_args = Some (calls @ [CancelRun ''run-1'', Shutdown], 2)"
    and c0: "cancelled_runs calls = []"
    by blast
  have eq: "cancelled_runs (calls @ [CancelRun ''run-1'', Shutdown]) = [''run-1'']"
    using c0 by (simp add: cancelled_runs_append)
  then have ne: "cancelled_runs (calls @ [CancelRun ''run-1'', Shutdown]) \<noteq> []"
    by simp
  have d: "\<exists>sid run pre e f post r. starts_run ?E fixture_args sid run
          \<and> polls ?E = pre @ (e, f) # post
          \<and> still_running (timeout fixture_args) pre \<and> real_of_int (timeout fixture_args) < e
          \<and> last (Some run # map snd pre) = Some r
          \<and> status r = RUNNING \<and> [''run-1''] = [run_id r]"
    using timeout_cancels_run [THEN conjunct2, THEN conjunct2, THEN conjunct2, rule_format,
        OF conjI [OF m ne], THEN conjunct2]
    unfolding eq .
  from s sp sr t(1) a cp b c d show ?thesis by (intro conjI)
qed


subsection \<open>The gates of the reporting stage\<close>

lemma reaches_report_result:
  assumes "reaches_report env a res"
  shows "\<exists>run. refreshed_run env = Some run \<and> res = build_result run (analyze env run)"
proof -
  from assms obtain calls where
    r: "run_test env (the (suite a)) (timeout a) (mock a \<and> \<not> no_mock a) = Some (calls, Inr res)"
    by (auto simp add: reaches_report_def)
  then obtain run' c1 where f: "finish_run env run' = (c1, Inr res)"
    by (auto simp add: run_test_def Let_def split: option.splits sum.splits prod.splits)
  then show ?thesis
    by (auto simp add: finish_run_def split: option.splits if_splits)
qed

lemma success_rate_below:
  "0 < total_tests sm \<Longrightarrow>
     (compute_success_rate sm < 100 \<longleftrightarrow> successful_tests sm < total_tests sm)"
  by (simp add: compute_success_rate_def divide_less_eq)

text \<open>
  C8, as amended. When the command line is given \<^verbatim>\<open>--baseline\<close> and
  \<^verbatim>\<open>--fail-on-regression\<close> and the regression check returns, the exit code is
  1 if the analysis reports at least one regression or the \<^verbatim>\<open>--ci\<close> gate fires
  (\<^verbatim>\<open>--ci\<close> with a success rate below 100), and 0 otherwise.
  \<open>has_regressions\<close> is true exactly when the list of regressions of the analyzer, run
  against the baseline with the threshold given, is not empty.
\<close>

theorem regression_gate_exit_code:
  "(reaches_report env a res \<and> fail_on_regression a
      \<and> regression_check env a res = Some (Inr rr) \<longrightarrow>
      exit_code env a
        = Some (if has_regressions rr \<or> (ci a \<and> success_rate (result_summary res) < 100)
                then 1 else 0))
   \<and> (regression_check env a res = Some (Inr rr) \<longrightarrow>
        truthy (baseline a)
        \<and> (\<exists>run bl. regression_run env = Some run
              \<and> get_baseline env (the (baseline a)) = Some bl
              \<and> reported_regressions rr
                  = regressions (analyze_baseline env run bl (regression_threshold a))
              \<and> (has_regressions rr \<longleftrightarrow>
                    regressions (analyze_baseline env run bl (regression_threshold a)) \<noteq> [])))"
proof (intro conjI impI)
  assume h: "reaches_report env a res \<and> fail_on_regression a
      \<and> regression_check env a res = Some (Inr rr)"
  then show "exit_code env a
      = Some (if has_regressions rr \<or> (ci a \<and> success_rate (result_summary res) < 100)
              then 1 else 0)"
    using report_exit_code [of env a res] by simp
next
  assume h: "regression_check env a res = Some (Inr rr)"
  then show "truthy (baseline a)"
    by (simp add: regression_check_def split: if_splits)
  from h have "snd (check_regression env (result_run_id res) (the (baseline a))
                      (regression_threshold a)) = Inr rr"
    by (simp add: regression_check_def split: if_splits)
  from check_regression_result [OF this]
  show "\<exists>run bl. regression_run env = Some run
              \<and> get_baseline env (the (baseline a)) = Some bl
              \<and> reported_regressions rr
                  = regressions (analyze_baseline env run bl (regression_threshold a))
              \<and> (has_regressions rr \<longleftrightarrow>
                    regressions (analyze_baseline env run bl (regression_threshold a)) \<noteq> [])"
    by blast
qed

text \<open>
  C9, as amended. Under \<^verbatim>\<open>--ci\<close>, for a run that reaches the reporting stage, a
  reported success rate strictly below 100 gives the exit code 1; and when the regression
  check is not made, or returns, the exit code is 1 if the success rate is strictly below
  100 or the \<^verbatim>\<open>--fail-on-regression\<close> gate fires, and 0 otherwise. The
  success rate reported is \<open>successful_tests / total_tests * 100\<close> over the summary of the
  refreshed run, and 0 when there are no tests; with tests, it is below 100 exactly when not
  all of them succeeded.
\<close>

theorem ci_gate_exit_code:
  "(ci a \<and> reaches_report env a res \<and> success_rate (result_summary res) < 100 \<longrightarrow>
      exit_code env a = Some 1)
   \<and> (ci a \<and> reaches_report env a res \<and> regression_check env a res = None \<longrightarrow>
        exit_code env a = Some (if success_rate (result_summary res) < 100 then 1 else 0))
   \<and> (ci a \<and> reaches_report env a res \<and> regression_check env a res = Some (Inr rr) \<longrightarrow>
        exit_code env a
          = Some (if success_rate (result_summary res) < 100
                     \<or> (fail_on_regression a \<and> has_regressions rr) then 1 else 0))
   \<and> (reaches_report env a res \<longrightarrow>
        (\<exists>run. refreshed_run env = Some run
            \<and> success_rate (result_summary res) = compute_success_rate (summary (analyze env run))))
   \<and> compute_success_rate sm
       = (if 0 < total_tests sm
          then real_of_int (successful_tests sm) / real_of_int (total_tests sm) * 100 else 0)
   \<and> (0 < total_tests sm \<longrightarrow>
        (compute_success_rate sm < 100 \<longleftrightarrow> successful_tests sm < total_tests sm))"
proof (intro conjI impI)
  assume h: "ci a \<and> reaches_report env a res \<and> success_rate (result_summary res) < 100"
  then show "exit_code env a = Some 1"
    using report_exit_code [of env a res]
    by (auto split: option.splits sum.splits)
next
  assume "ci a \<and> reaches_report env a res \<and> regression_check env a res = None"
  then show "exit_code env a = Some (if success_rate (result_summary res) < 100 then 1 else 0)"
    using report_exit_code [of env a res] by simp
next
  assume "ci a \<and> reaches_report env a res \<and> regression_check env a res = Some (Inr rr)"
  then show "exit_code env a
          = Some (if success_rate (result_summary res) < 100
                     \<or> (fail_on_regression a \<and> has_regressions rr) then 1 else 0)"
    using report_exit_code [of env a res] by auto
next
  assume "reaches_report env a res"
  from reaches_report_result [OF this]
  show "\<exists>run. refreshed_run env = Some run
            \<and> success_rate (result_summary res) = compute_success_rate (summary (analyze env run))"
    by (auto simp add: build_result_def)
next
  show "compute_success_rate sm
       = (if 0 < total_tests sm
          then real_of_int (successful_tests sm) / real_of_int (total_tests sm) * 100 else 0)"
    by (simp add: compute_success_rate_def)
next
  assume "0 < total_tests sm"
  then show "compute_success_rate sm < 100 \<longleftrightarrow> successful_tests sm < total_tests sm"
    by (rule success_rate_below)
qed

theorem regression_gate_exit_code_witness:
  "reaches_report (fixture_env completing_polls COMPLETED 6 6 [fixture_regression])
     (fixture_args\<lparr>ci := False, baseline := Some ''base'', fail_on_regression := True\<rparr>)
     (build_result (fixture_run COMPLETED) (fixture_report 6 6 []))
   \<and> fail_on_regression (fixture_args\<lparr>ci := False, baseline := Some ''base'',
                                       fail_on_regression := True\<rparr>)
   \<and> exit_code (fixture_env completing_polls COMPLETED 6 6 [fixture_regression])
        (fixture_args\<lparr>ci := False, baseline := Some ''base'', fail_on_regression := True\<rparr>)
       = Some 1
   \<and> exit_code (fixture_env completing_polls COMPLETED 6 6 [])
        (fixture_args\<lparr>ci := False, baseline := Some ''base'', fail_on_regression := True\<rparr>)
       = Some 0
   \<and> regressions (analyze_baseline (fixture_env completing_polls COMPLETED 6 6 [fixture_regression])
         (fixture_run COMPLETED) \<lparr>baseline_id = ''base''\<rparr> 0.2) \<noteq> []"
proof -
  let ?A = "fixture_args\<lparr>ci := False, baseline := Some ''base'', fail_on_regression := True\<rparr>"
  let ?E = "fixture_env completing_polls COMPLETED 6 6 [fixture_regression]"
  let ?N = "fixture_env completing_polls COMPLETED 6 6 []"
  let ?R = "build_result (fixture_run COMPLETED) (fixture_report 6 6 [])"
  have f: "fail_on_regression ?A" "\<not> ci ?A" by simp_all
  have r: "regressions (analyze_baseline ?E (fixture_run COMPLETED) \<lparr>baseline_id = ''base''\<rparr> 0.2) \<noteq> []"
    by (simp add: fixture_env_def fixture_report_def)
  note e1 = regression_gate_exit_code [THEN conjunct1, rule_format,
      OF conjI [OF fixture_reaches_report conjI [OF f(1) fixture_regression_check]]]
  have x1: "exit_code ?E ?A = Some 1"
    using e1 [of 6 6 "[fixture_regression]"] f(2) by auto
  have x0: "exit_code ?N ?A = Some 0"
    using e1 [of 6 6 "[]"] f(2) by auto
  from fixture_reaches_report f(1) x1 x0 r show ?thesis by (intro conjI)
qed

theorem regression_gate_ci_counterexample:
  "truthy (baseline (fixture_args\<lparr>ci := True, baseline := Some ''base'',
                                   fail_on_regression := True\<rparr>))
   \<and> fail_on_regression (fixture_args\<lparr>ci := True, baseline := Some ''base'',
                                       fail_on_regression := True\<rparr>)
   \<and> regressions (analyze_baseline (fixture_env completing_polls COMPLETED 3 6 [])
         (fixture_run COMPLETED) \<lparr>baseline_id = ''base''\<rparr> 0.2) = []
   \<and> map_option (map_sum id has_regressions)
        (regression_check (fixture_env completing_polls COMPLETED 3 6 [])
           (fixture_args\<lparr>ci := True, baseline := Some ''base'', fail_on_regression := True\<rparr>)
           (build_result (fixture_run COMPLETED) (fixture_report 3 6 [])))
       = Some (Inr False)
   \<and> exit_code (fixture_env completing_polls COMPLETED 3 6 [])
        (fixture_args\<lparr>ci := True, baseline := Some ''base'', fail_on_regression := True\<rparr>)
       = Some 1"
  by (simp add: regression_check_def cli_defs fixture_defs)

theorem ci_gate_exit_code_witness:
  "ci (fixture_args\<lparr>ci := True, baseline := None, fail_on_regression := False\<rparr>)
   \<and> reaches_report (fixture_env completing_polls COMPLETED 5 6 [])
        (fixture_args\<lparr>ci := True, baseline := None, fail_on_regression := False\<rparr>)
        (build_result (fixture_run COMPLETED) (fixture_report 5 6 []))
   \<and> success_rate (result_summary (build_result (fixture_run COMPLETED) (fixture_report 5 6 [])))
       < 100
   \<and> exit_code (fixture_env completing_polls COMPLETED 5 6 [])
        (fixture_args\<lparr>ci := True, baseline := None, fail_on_regression := False\<rparr>) = Some 1
   \<and> exit_code (fixture_env completing_polls COMPLETED 6 6 [])
        (fixture_args\<lparr>ci := True, baseline := None, fail_on_regression := False\<rparr>) = Some 0
   \<and> exit_code (fixture_env completing_polls COMPLETED 6 6 [])
        (fixture_args\<lparr>ci := True, baseline := Some ''base'', fail_on_regression := False\<rparr>)
       = Some 0
   \<and> (0::int) < total_tests (summary (fixture_report 5 6 []))
   \<and> compute_success_rate (summary (fixture_report 5 6 [])) < 100"
proof -
  let ?A = "fixture_args\<lparr>ci := True, baseline := None, fail_on_regression := False\<rparr>"
  let ?B = "fixture_args\<lparr>ci := True, baseline := Some ''base'', fail_on_regression := False\<rparr>"
  let ?E5 = "fixture_env completing_polls COMPLETED 5 6 []"
  let ?E6 = "fixture_env completing_polls COMPLETED 6 6 []"
  let ?R5 = "build_result (fixture_run COMPLETED) (fixture_report 5 6 [])"
  let ?R6 = "build_result (fixture_run COMPLETED) (fixture_report 6 6 [])"
  have c: "ci ?A" "ci ?B" by simp_all
  have n: "regression_check ?E5 ?A ?R5 = None" "regression_check ?E6 ?A ?R6 = None"
    by (simp_all add: regression_check_def truthy_def)
  have s5: "success_rate (result_summary ?R5) < 100"
    and s6: "\<not> success_rate (result_summary ?R6) < 100"
    by (simp_all add: build_result_def compute_success_rate_def fixture_report_def)
  have t: "(0::int) < total_tests (summary (fixture_report 5 6 []))"
    and u: "successful_tests (summary (fixture_report 5 6 []))
              < total_tests (summary (fixture_report 5 6 []))"
    by (simp_all add: fixture_report_def)
  have x1: "exit_code ?E5 ?A = Some 1"
    using ci_gate_exit_code [THEN conjunct1, rule_format,
        OF conjI [OF c(1) conjI [OF fixture_reaches_report s5]]] .
  have x0: "exit_code ?E6 ?A = Some 0"
    using ci_gate_exit_code [THEN conjunct2, THEN conjunct1, rule_format,
        OF conjI [OF c(1) conjI [OF fixture_reaches_report n(2)]]] s6
    by simp
  have x2: "exit_code ?E6 ?B = Some 0"
    using ci_gate_exit_code [THEN conjunct2, THEN conjunct2, THEN conjunct1, rule_format,
        OF conjI [OF c(2) conjI [OF fixture_reaches_report fixture_regression_check]]] s6
    by simp
  have v: "compute_success_rate (summary (fixture_report 5 6 [])) < 100"
    using ci_gate_exit_code [THEN conjunct2, THEN conjunct2, THEN conjunct2, THEN conjunct2,
        THEN conjunct2, rule_format, OF t] u
    by simp
  have rr: "reaches_report ?E5 ?A ?R5" by (rule fixture_reaches_report)
  from c(1) rr s5 x1 x0 x2 t v show ?thesis by (intro conjI)
qed

theorem ci_gate_regression_counterexample:
  "ci (fixture_args\<lparr>ci := True, baseline := Some ''base'', fail_on_regression := True\<rparr>)
   \<and> reaches_report (fixture_env completing_polls COMPLETED 6 6 [fixture_regression])
        (fixture_args\<lparr>ci := True, baseline := Some ''base'', fail_on_regression := True\<rparr>)
        (build_result (fixture_run COMPLETED) (fixture_report 6 6 []))
   \<and> success_rate (result_summary (build_result (fixture_run COMPLETED) (fixture_report 6 6 [])))
       = 100
   \<and> \<not> success_rate (result_summary (build_result (fixture_run COMPLETED)
                                          (fixture_report 6 6 []))) < 100
   \<and> exit_code (fixture_env completing_polls COMPLETED 6 6 [fixture_regression])
        (fixture_args\<lparr>ci := True, baseline := Some ''base'', fail_on_regression := True\<rparr>)
       = Some 1"
  by (simp add: reaches_report_def cli_defs fixture_defs)


subsection \<open>The mock client\<close>

lemma main_body_of_main:
  "main env a = Some (calls, code) \<Longrightarrow>
     \<exists>bcalls outcome. main_body env a = Some (bcalls, outcome) \<and> calls = bcalls @ [Shutdown]
        \<and> code = exit_code_of outcome"
  by (auto simp add: main_def)

lemma main_body_start_fails:
  assumes "finds_suite env a sid" and "start_test_run env sid = Inl e"
  shows "main_body env a = Some (Initialize # calls_before_loop a sid, Inl e)"
  using assms
  by (auto simp add: finds_suite_def main_body_def truthy_def run_test_def Let_def
        calls_before_loop_def)

lemma calls_before_loop_registers:
  "registered_clients (calls_before_loop a sid)
     = (if mock a \<and> \<not> no_mock a then [''cli_mock_client''] else [])"
  by (simp add: calls_before_loop_def)

lemma main_body_registers:
  assumes "finds_suite env a sid" and "main_body env a = Some (calls, outcome)"
  shows "registered_clients calls = (if mock a \<and> \<not> no_mock a then [''cli_mock_client''] else [])"
proof (cases "start_test_run env sid")
  case (Inl e)
  from main_body_start_fails [OF assms(1) Inl] assms(2)
  have "calls = Initialize # calls_before_loop a sid" by simp
  then show ?thesis by (simp add: calls_before_loop_registers)
next
  case (Inr run)
  with assms(1) have st: "starts_run env a sid run" by (simp add: starts_run_def)
  from assms(2) main_body_started [OF st] obtain wc ended where
    w: "wait_loop (timeout a) (Some run) (polls env) = Some (wc, ended)"
    and c: "calls = Initialize # calls_before_loop a sid @ wc @ fst (after_loop env a ended)"
    by (auto split: prod.splits)
  show ?thesis
    using c wait_loop_registers_nothing [OF w] after_loop_calls [of env a ended]
    by (simp add: registered_clients_append calls_before_loop_registers)
qed

text \<open>
  C10. The flag \<^verbatim>\<open>--mock\<close> is inert. Its parsed value is True whether or not the flag
  is given, so that \<open>use_mock\<close> is the negation of \<^verbatim>\<open>--no-mock\<close> for every
  combination of the two flags, and giving or omitting \<^verbatim>\<open>--mock\<close> changes neither
  the parsed arguments nor anything \<^verbatim>\<open>main\<close> does. In an invocation that runs a
  registered suite the client \<open>cli_mock_client\<close> is registered, once, exactly when
  \<^verbatim>\<open>--no-mock\<close> is absent.
\<close>

theorem mock_flag_inert:
  "mock (parse_args cl)
   \<and> ((mock (parse_args cl) \<and> \<not> no_mock (parse_args cl)) \<longleftrightarrow> \<not> given_no_mock cl)
   \<and> parse_args (cl\<lparr>given_mock := b\<rparr>) = parse_args cl
   \<and> main env (parse_args (cl\<lparr>given_mock := b\<rparr>)) = main env (parse_args cl)
   \<and> (finds_suite env (parse_args cl) sid \<and> main env (parse_args cl) = Some (calls, code) \<longrightarrow>
        registered_clients calls = (if given_no_mock cl then [] else [''cli_mock_client'']))"
proof (intro conjI impI)
  show m: "mock (parse_args cl)"
    by (simp add: parse_args_def store_true_def)
  show u: "(mock (parse_args cl) \<and> \<not> no_mock (parse_args cl)) \<longleftrightarrow> \<not> given_no_mock cl"
    by (simp add: parse_args_def store_true_def)
  show p: "parse_args (cl\<lparr>given_mock := b\<rparr>) = parse_args cl"
    by (simp add: parse_args_def store_true_def)
  then show "main env (parse_args (cl\<lparr>given_mock := b\<rparr>)) = main env (parse_args cl)"
    by simp
  assume h: "finds_suite env (parse_args cl) sid \<and> main env (parse_args cl) = Some (calls, code)"
  then obtain bcalls outcome where
    b: "main_body env (parse_args cl) = Some (bcalls, outcome)" and c: "calls = bcalls @ [Shutdown]"
    using main_body_of_main by blast
  from h have f: "finds_suite env (parse_args cl) sid" by simp
  show "registered_clients calls = (if given_no_mock cl then [] else [''cli_mock_client''])"
    using main_body_registers [OF f b] c u
    by (auto simp add: registered_clients_append)
qed

theorem mock_flag_inert_witness:
  "finds_suite (fixture_env completing_polls COMPLETED 6 6 []) (parse_args fixture_command_line)
     ''quick_validation''
   \<and> map_option (registered_clients \<circ> fst)
        (main (fixture_env completing_polls COMPLETED 6 6 []) (parse_args fixture_command_line))
       = Some [''cli_mock_client'']
   \<and> map_option (registered_clients \<circ> fst)
        (main (fixture_env completing_polls COMPLETED 6 6 [])
           (parse_args (fixture_command_line\<lparr>given_mock := True\<rparr>)))
       = Some [''cli_mock_client'']
   \<and> finds_suite (fixture_env completing_polls COMPLETED 6 6 [])
       (parse_args (fixture_command_line\<lparr>given_no_mock := True\<rparr>)) ''quick_validation''
   \<and> map_option (registered_clients \<circ> fst)
        (main (fixture_env completing_polls COMPLETED 6 6 [])
           (parse_args (fixture_command_line\<lparr>given_no_mock := True\<rparr>)))
       = Some []"
proof -
  let ?E = "fixture_env completing_polls COMPLETED 6 6 []"
  let ?n = "fixture_command_line\<lparr>given_no_mock := True\<rparr>"
  have f: "finds_suite ?E (parse_args fixture_command_line) ''quick_validation''"
    and f': "finds_suite ?E (parse_args ?n) ''quick_validation''"
    by (simp_all add: finds_suite_def cli_defs fixture_defs)
  have g: "\<not> given_no_mock fixture_command_line" "given_no_mock ?n"
    by (simp_all add: fixture_command_line_def)
  obtain calls code where m: "main ?E (parse_args fixture_command_line) = Some (calls, code)"
    using completing_main by (simp add: fixture_args_def)
  have "main ?E (parse_args ?n) \<noteq> None"
    by (simp add: cli_defs fixture_defs)
  then obtain calls' code' where m': "main ?E (parse_args ?n) = Some (calls', code')"
    by auto
  have r: "registered_clients calls = [''cli_mock_client'']"
    using mock_flag_inert [THEN conjunct2, THEN conjunct2, THEN conjunct2, THEN conjunct2,
        rule_format, OF conjI [OF f m]] g(1)
    by simp
  have r': "registered_clients calls' = []"
    using mock_flag_inert [THEN conjunct2, THEN conjunct2, THEN conjunct2, THEN conjunct2,
        rule_format, OF conjI [OF f' m']] g(2)
    by simp
  have e: "main ?E (parse_args (fixture_command_line\<lparr>given_mock := True\<rparr>))
             = main ?E (parse_args fixture_command_line)"
    using mock_flag_inert [of fixture_command_line True ?E] by simp
  from f f' m m' r r' e show ?thesis by simp
qed


subsection \<open>Exit codes\<close>

lemma exit_code_of_exn: "exit_code_of (Inl e) = (case e of TimeoutError t \<Rightarrow> 2 | _ \<Rightarrow> 1)"
  by (cases e) simp_all

lemma exit_code_started:
  assumes "starts_run env a sid run"
    and "map_option snd (wait_loop (timeout a) (Some run) (polls env)) = Some ended"
  shows "exit_code env a = Some (exit_code_of (snd (after_loop env a ended)))"
proof -
  from assms(2) obtain wc where "wait_loop (timeout a) (Some run) (polls env) = Some (wc, ended)"
    using wait_loop_snd by blast
  from main_started_exit [OF assms(1) this] show ?thesis
    by (simp add: exit_code_def)
qed

lemma exit_code_suite_missing:
  assumes "initialize_error env = None" and "\<not> list_suites a" and "suite a = Some sid"
    and "sid \<noteq> []" and "get_suite env sid = None"
  shows "exit_code env a = Some 1"
  using assms by (simp add: exit_code_def main_def main_body_def truthy_def run_test_def)

lemma exit_code_no_run:
  assumes "initialize_error env = None" and "list_suites a \<or> \<not> truthy (suite a)"
  shows "exit_code env a = Some 0"
  using assms by (auto simp add: exit_code_def main_def main_body_def)

lemma exit_code_initialize:
  assumes "initialize_error env = Some e"
  shows "exit_code env a = Some (exit_code_of (Inl e))"
  using assms by (simp add: exit_code_def main_def main_body_def)

lemma exit_code_start:
  assumes "finds_suite env a sid" and "start_test_run env sid = Inl e"
  shows "exit_code env a = Some (exit_code_of (Inl e))"
  using main_body_start_fails [OF assms] by (simp add: exit_code_def main_def)

text \<open>
  C3, as amended. The exit code of every invocation that ends is 0, 1 or 2. It is 2 exactly
  when a \<^verbatim>\<open>TimeoutError\<close> leaves the \<^verbatim>\<open>try\<close> statement: when the run
  times out, and also when the initialisation or the start of the run raises one. It is 1
  exactly when another exception leaves it or a gate has set the code; it is 0 exactly when
  the body ends with no gate fired. In particular: a suite that is not found gives 1; a
  run found FAILED or CANCELLED after the loop gives 1; at the reporting stage the code is 1
  when the \<^verbatim>\<open>--ci\<close> gate or the \<^verbatim>\<open>--fail-on-regression\<close> gate fires or the
  regression check raises, and 0 otherwise; an error of the initialisation or of the start of
  the run gives 1, unless it is itself a \<^verbatim>\<open>TimeoutError\<close>; listing the suites or
  naming no suite gives 0. The invocation ends whenever the clock of the waiting loop gets
  beyond the timeout.
\<close>

theorem cli_exit_codes:
  "(main env a = Some (calls, code) \<longrightarrow> code = 0 \<or> code = 1 \<or> code = 2)
   \<and> (main_body env a = Some (bcalls, outcome) \<longrightarrow>
        exit_code env a = Some (exit_code_of outcome)
        \<and> (exit_code env a = Some 2 \<longleftrightarrow> (\<exists>t. outcome = Inl (TimeoutError t)))
        \<and> (exit_code env a = Some 1 \<longleftrightarrow>
              outcome = Inr 1 \<or> (\<exists>e. outcome = Inl e \<and> (\<forall>t. e \<noteq> TimeoutError t)))
        \<and> (exit_code env a = Some 0 \<longleftrightarrow> outcome = Inr 0))
   \<and> (starts_run env a sid run
        \<and> map_option snd (wait_loop (timeout a) (Some run) (polls env))
            = Some (Inl (TimeoutError t)) \<longrightarrow>
        exit_code env a = Some 2)
   \<and> (initialize_error env = None \<and> \<not> list_suites a \<and> suite a = Some sid \<and> sid \<noteq> []
        \<and> get_suite env sid = None \<longrightarrow>
        exit_code env a = Some 1)
   \<and> (starts_run env a sid run
        \<and> map_option snd (wait_loop (timeout a) (Some run) (polls env)) = Some (Inr run')
        \<and> refreshed_run env = Some run'' \<and> (status run'' = FAILED \<or> status run'' = CANCELLED) \<longrightarrow>
        exit_code env a = Some 1)
   \<and> (reaches_report env a res \<longrightarrow>
        exit_code env a =
          (case regression_check env a res of
             None \<Rightarrow> Some (if ci a \<and> success_rate (result_summary res) < 100 then 1 else 0)
           | Some (Inl e) \<Rightarrow> Some 1
           | Some (Inr rr) \<Rightarrow>
               Some (if (fail_on_regression a \<and> has_regressions rr)
                        \<or> (ci a \<and> success_rate (result_summary res) < 100) then 1 else 0)))
   \<and> (initialize_error env = Some e \<longrightarrow>
        exit_code env a = Some (case e of TimeoutError t \<Rightarrow> 2 | _ \<Rightarrow> 1))
   \<and> (finds_suite env a sid \<and> start_test_run env sid = Inl e \<longrightarrow>
        exit_code env a = Some (case e of TimeoutError t \<Rightarrow> 2 | _ \<Rightarrow> 1))
   \<and> (initialize_error env = None \<and> (list_suites a \<or> \<not> truthy (suite a)) \<longrightarrow>
        exit_code env a = Some 0)
   \<and> ((\<exists>p \<in> set (polls env). real_of_int (timeout a) < fst p) \<longrightarrow> main env a \<noteq> None)"
proof (intro conjI impI)
  assume "main env a = Some (calls, code)"
  then obtain bc out where b: "main_body env a = Some (bc, out)" and c: "code = exit_code_of out"
    using main_body_of_main by blast
  show "code = 0 \<or> code = 1 \<or> code = 2"
  proof (cases out)
    case (Inl e)
    with c show ?thesis by (cases e) simp_all
  next
    case (Inr n)
    with b main_body_code [of env a bc n] c show ?thesis by auto
  qed
next
  assume b: "main_body env a = Some (bcalls, outcome)"
  then show x: "exit_code env a = Some (exit_code_of outcome)"
    using main_exit_code by blast
  have r: "\<And>n. outcome = Inr n \<Longrightarrow> n = 0 \<or> n = 1"
    using b main_body_code by blast
  show "exit_code env a = Some 2 \<longleftrightarrow> (\<exists>t. outcome = Inl (TimeoutError t))"
  proof (cases outcome)
    case (Inl e)
    with x show ?thesis by (cases e) simp_all
  next
    case (Inr n)
    with x r [OF Inr] show ?thesis by auto
  qed
  show "exit_code env a = Some 1 \<longleftrightarrow>
          outcome = Inr 1 \<or> (\<exists>e. outcome = Inl e \<and> (\<forall>t. e \<noteq> TimeoutError t))"
  proof (cases outcome)
    case (Inl e)
    with x show ?thesis by (cases e) simp_all
  next
    case (Inr n)
    with x show ?thesis by auto
  qed
  show "exit_code env a = Some 0 \<longleftrightarrow> outcome = Inr 0"
  proof (cases outcome)
    case (Inl e)
    with x show ?thesis by (cases e) simp_all
  next
    case (Inr n)
    with x show ?thesis by auto
  qed
next
  assume "starts_run env a sid run
        \<and> map_option snd (wait_loop (timeout a) (Some run) (polls env))
            = Some (Inl (TimeoutError t))"
  then show "exit_code env a = Some 2"
    using exit_code_started [of env a sid run "Inl (TimeoutError t)"]
    by (simp add: after_loop_def)
next
  assume "initialize_error env = None \<and> \<not> list_suites a \<and> suite a = Some sid \<and> sid \<noteq> []
        \<and> get_suite env sid = None"
  then show "exit_code env a = Some 1"
    using exit_code_suite_missing by blast
next
  assume "starts_run env a sid run
        \<and> map_option snd (wait_loop (timeout a) (Some run) (polls env)) = Some (Inr run')
        \<and> refreshed_run env = Some run'' \<and> (status run'' = FAILED \<or> status run'' = CANCELLED)"
  then show "exit_code env a = Some 1"
    using exit_code_started [of env a sid run "Inr run'"]
    by (auto simp add: after_loop_def finish_run_def)
next
  assume "reaches_report env a res"
  then show "exit_code env a =
          (case regression_check env a res of
             None \<Rightarrow> Some (if ci a \<and> success_rate (result_summary res) < 100 then 1 else 0)
           | Some (Inl e) \<Rightarrow> Some 1
           | Some (Inr rr) \<Rightarrow>
               Some (if (fail_on_regression a \<and> has_regressions rr)
                        \<or> (ci a \<and> success_rate (result_summary res) < 100) then 1 else 0))"
    by (rule report_exit_code)
next
  assume "initialize_error env = Some e"
  then show "exit_code env a = Some (case e of TimeoutError t \<Rightarrow> 2 | _ \<Rightarrow> 1)"
    using exit_code_initialize [of env e a] by (simp add: exit_code_of_exn)
next
  assume "finds_suite env a sid \<and> start_test_run env sid = Inl e"
  then show "exit_code env a = Some (case e of TimeoutError t \<Rightarrow> 2 | _ \<Rightarrow> 1)"
    using exit_code_start [of env a sid e] by (simp add: exit_code_of_exn)
next
  assume "initialize_error env = None \<and> (list_suites a \<or> \<not> truthy (suite a))"
  then show "exit_code env a = Some 0"
    using exit_code_no_run by blast
next
  assume "\<exists>p \<in> set (polls env). real_of_int (timeout a) < fst p"
  then show "main env a \<noteq> None" by (rule main_returns)
qed

theorem cli_exit_codes_witness:
  "exit_code (fixture_env stuck_polls COMPLETED 6 6 []) fixture_args = Some 2
   \<and> starts_run (fixture_env stuck_polls COMPLETED 6 6 []) fixture_args ''quick_validation''
       (fixture_run RUNNING)
   \<and> map_option snd (wait_loop (timeout fixture_args) (Some (fixture_run RUNNING))
                        (polls (fixture_env stuck_polls COMPLETED 6 6 [])))
       = Some (Inl (TimeoutError 300))
   \<and> exit_code (fixture_env completing_polls COMPLETED 6 6 []) fixture_args = Some 0
   \<and> exit_code (fixture_env completing_polls COMPLETED 6 6 [])
        (fixture_args\<lparr>suite := Some ''missing''\<rparr>) = Some 1
   \<and> exit_code (fixture_env completing_polls FAILED 6 6 []) fixture_args = Some 1
   \<and> exit_code (fixture_env completing_polls CANCELLED 6 6 []) fixture_args = Some 1
   \<and> exit_code (fixture_env completing_polls COMPLETED 5 6 [])
        (fixture_args\<lparr>ci := True, baseline := None, fail_on_regression := False\<rparr>) = Some 1
   \<and> exit_code (fixture_env completing_polls COMPLETED 6 6 [fixture_regression])
        (fixture_args\<lparr>ci := False, baseline := Some ''base'', fail_on_regression := True\<rparr>)
       = Some 1
   \<and> exit_code ((fixture_env completing_polls COMPLETED 6 6 [])
                   \<lparr>initialize_error := Some (OtherError ''storage unavailable'')\<rparr>) fixture_args
       = Some 1
   \<and> exit_code ((fixture_env completing_polls COMPLETED 6 6 [])
                   \<lparr>start_test_run := (\<lambda>sid. Inl (RuntimeError ''no eligible client''))\<rparr>)
        fixture_args = Some 1
   \<and> exit_code (fixture_env completing_polls COMPLETED 6 6 [])
        (fixture_args\<lparr>list_suites := True\<rparr>) = Some 0
   \<and> main (fixture_env stuck_polls COMPLETED 6 6 []) fixture_args \<noteq> None"
proof -
  let ?S = "fixture_env stuck_polls COMPLETED 6 6 []"
  let ?C = "fixture_env completing_polls COMPLETED 6 6 []"
  let ?run = "fixture_run RUNNING"
  note T = cli_exit_codes
  \<comment> \<open>the range of the code\<close>
  have range: "(2::int) = 0 \<or> (2::int) = 1 \<or> (2::int) = 2"
    using T [THEN conjunct1, rule_format, OF stuck_main] .
  \<comment> \<open>a timeout leaving the body\<close>
  have sb: "main_body ?S fixture_args
              = Some ([Initialize, GetSuite ''quick_validation'',
                       RegisterClient ''cli_mock_client'', StartTestRun ''quick_validation'',
                       Sleep, GetRun ''run-1'', CancelRun ''run-1''], Inl (TimeoutError 300))"
    by (simp add: cli_defs fixture_defs)
  have x2: "exit_code ?S fixture_args = Some 2"
    using T [THEN conjunct2, THEN conjunct1, rule_format, OF sb] by simp
  \<comment> \<open>the timeout of the run\<close>
  have st: "starts_run ?S fixture_args ''quick_validation'' ?run"
    and st': "\<And>final. starts_run (fixture_env completing_polls final 6 6 []) fixture_args
                ''quick_validation'' ?run"
    by (simp_all add: starts_run_def finds_suite_def cli_defs fixture_defs)
  have w: "map_option snd (wait_loop (timeout fixture_args) (Some ?run) (polls ?S))
             = Some (Inl (TimeoutError 300))"
    by (simp add: cli_defs fixture_defs)
  have x2': "exit_code ?S fixture_args = Some 2"
    using T [THEN conjunct2, THEN conjunct2, THEN conjunct1, rule_format, OF conjI [OF st w]] .
  \<comment> \<open>a suite that is not found\<close>
  have x_missing: "exit_code ?C (fixture_args\<lparr>suite := Some ''missing''\<rparr>) = Some 1"
    using T [THEN conjunct2, THEN conjunct2, THEN conjunct2, THEN conjunct1, rule_format,
        of ?C "fixture_args\<lparr>suite := Some ''missing''\<rparr>" "''missing''"]
    by (simp add: cli_defs fixture_defs)
  \<comment> \<open>a run that failed or was cancelled\<close>
  have wl: "\<And>final. map_option snd (wait_loop (timeout fixture_args) (Some ?run)
                        (polls (fixture_env completing_polls final 6 6 [])))
             = Some (Inr (fixture_run COMPLETED))"
    by (simp add: cli_defs fixture_defs)
  have rf: "\<And>final. refreshed_run (fixture_env completing_polls final 6 6 [])
                       = Some (fixture_run final)"
    by (simp add: fixture_env_def)
  have sf: "status (fixture_run FAILED) = FAILED \<or> status (fixture_run FAILED) = CANCELLED"
    and sc: "status (fixture_run CANCELLED) = FAILED \<or> status (fixture_run CANCELLED) = CANCELLED"
    by (simp_all add: fixture_run_def)
  note T5 = T [THEN conjunct2, THEN conjunct2, THEN conjunct2, THEN conjunct2, THEN conjunct1,
      rule_format]
  have x_failed: "exit_code (fixture_env completing_polls FAILED 6 6 []) fixture_args = Some 1"
    using T5 [OF conjI [OF st' conjI [OF wl conjI [OF rf sf]]]] .
  have x_cancelled: "exit_code (fixture_env completing_polls CANCELLED 6 6 []) fixture_args = Some 1"
    using T5 [OF conjI [OF st' conjI [OF wl conjI [OF rf sc]]]] .
  \<comment> \<open>the reporting stage\<close>
  note T6 = T [THEN conjunct2, THEN conjunct2, THEN conjunct2, THEN conjunct2, THEN conjunct2,
      THEN conjunct1, rule_format]
  have rr_ok: "reaches_report ?C (fixture_args\<lparr>ci := False, baseline := None,
                                              fail_on_regression := False\<rparr>)
                 (build_result (fixture_run COMPLETED) (fixture_report 6 6 []))"
    and rr_ci: "reaches_report (fixture_env completing_polls COMPLETED 5 6 [])
                 (fixture_args\<lparr>ci := True, baseline := None, fail_on_regression := False\<rparr>)
                 (build_result (fixture_run COMPLETED) (fixture_report 5 6 []))"
    and rr_reg: "reaches_report (fixture_env completing_polls COMPLETED 6 6 [fixture_regression])
                 (fixture_args\<lparr>ci := False, baseline := Some ''base'',
                                fail_on_regression := True\<rparr>)
                 (build_result (fixture_run COMPLETED) (fixture_report 6 6 []))"
    by (rule fixture_reaches_report)+
  have x_ok: "exit_code ?C (fixture_args\<lparr>ci := False, baseline := None,
                                          fail_on_regression := False\<rparr>) = Some 0"
    using T6 [OF rr_ok]
    by (simp add: regression_check_def truthy_def)
  have same: "fixture_args\<lparr>ci := False, baseline := None, fail_on_regression := False\<rparr>
                = fixture_args"
    by (simp add: cli_defs fixture_defs)
  have x_ci: "exit_code (fixture_env completing_polls COMPLETED 5 6 [])
                (fixture_args\<lparr>ci := True, baseline := None, fail_on_regression := False\<rparr>)
              = Some 1"
    using T6 [OF rr_ci]
    by (simp add: regression_check_def truthy_def build_result_def compute_success_rate_def
          fixture_report_def)
  have x_reg: "exit_code (fixture_env completing_polls COMPLETED 6 6 [fixture_regression])
                 (fixture_args\<lparr>ci := False, baseline := Some ''base'',
                                fail_on_regression := True\<rparr>) = Some 1"
    using T6 [OF rr_reg]
    by (simp add: fixture_regression_check)
  \<comment> \<open>errors of the collaborators\<close>
  have x_init: "exit_code (?C\<lparr>initialize_error := Some (OtherError ''storage unavailable'')\<rparr>)
                  fixture_args = Some 1"
    using T [THEN conjunct2, THEN conjunct2, THEN conjunct2, THEN conjunct2, THEN conjunct2,
        THEN conjunct2, THEN conjunct1, rule_format,
        of "?C\<lparr>initialize_error := Some (OtherError ''storage unavailable'')\<rparr>"
           "OtherError ''storage unavailable''" fixture_args]
    by simp
  have x_start: "exit_code (?C\<lparr>start_test_run := (\<lambda>sid. Inl (RuntimeError ''no eligible client''))\<rparr>)
                   fixture_args = Some 1"
    using T [THEN conjunct2, THEN conjunct2, THEN conjunct2, THEN conjunct2, THEN conjunct2,
        THEN conjunct2, THEN conjunct2, THEN conjunct1, rule_format,
        of "?C\<lparr>start_test_run := (\<lambda>sid. Inl (RuntimeError ''no eligible client''))\<rparr>"
           fixture_args "''quick_validation''" "RuntimeError ''no eligible client''"]
    by (simp add: finds_suite_def cli_defs fixture_defs)
  \<comment> \<open>no run asked for\<close>
  have x_list: "exit_code ?C (fixture_args\<lparr>list_suites := True\<rparr>) = Some 0"
    using T [THEN conjunct2, THEN conjunct2, THEN conjunct2, THEN conjunct2, THEN conjunct2,
        THEN conjunct2, THEN conjunct2, THEN conjunct2, THEN conjunct1, rule_format,
        of ?C "fixture_args\<lparr>list_suites := True\<rparr>"]
    by (simp add: fixture_env_def)
  \<comment> \<open>the invocation ends\<close>
  have ends: "main ?S fixture_args \<noteq> None"
    using T [THEN conjunct2, THEN conjunct2, THEN conjunct2, THEN conjunct2, THEN conjunct2,
        THEN conjunct2, THEN conjunct2, THEN conjunct2, THEN conjunct2, rule_format,
        of ?S fixture_args]
    by (simp add: cli_defs fixture_defs)
  from x2 st w x_ok [unfolded same] x_missing x_failed x_cancelled x_ci x_reg x_init x_start
    x_list ends
  show ?thesis by (intro conjI)
qed


text \<open>
  C3 as stated does not hold: 2 is not kept for a run that times out, and not every other
  error gives 1. When the initialisation raises a \<^verbatim>\<open>TimeoutError\<close> no suite is
  looked up and no run is started, let alone timed out, yet the first
  \<^verbatim>\<open>except\<close> clause takes it and the exit code is 2. The same holds when the
  start of the run raises one: no pass of the waiting loop is made and no run is cancelled.
\<close>

theorem cli_exit_codes_timeout_counterexample:
  "main ((fixture_env completing_polls COMPLETED 6 6 [])
           \<lparr>initialize_error := Some (TimeoutError 0)\<rparr>) fixture_args
     = Some ([Initialize, Shutdown], 2)
   \<and> main ((fixture_env completing_polls COMPLETED 6 6 [])
             \<lparr>start_test_run := (\<lambda>sid. Inl (TimeoutError 0))\<rparr>) fixture_args
       = Some ([Initialize, GetSuite ''quick_validation'', RegisterClient ''cli_mock_client'',
                StartTestRun ''quick_validation'', Shutdown], 2)"
  by (simp add: cli_defs fixture_defs)

end
